theory Spec2Isabelle
  imports Complex_Main "HOL-Library.Word" "HOL-Library.Signed_Division"
begin

section \<open>A Cairo frame-buffer backend for Nuklear: the embedding\<close>

text \<open>
  The source is the single header \<^verbatim>\<open>nuklear_cairo.h\<close>. It calls three libraries
  that are not part of it: Cairo (drawing), FreeType (font files) and Nuklear (the GUI
  toolkit that produces the command list). The model keeps every function of the header
  under its own name and records each library call it makes, in order, in the drawing
  context it is made on.

  Conventions.
  \<^item> C \<^verbatim>\<open>int\<close> values are \<^typ>\<open>int\<close>: the header does no arithmetic that could leave
    the 32-bit range on values the toolkit produces (16-bit coordinates, table indices
    below 17). Integer division is C's (truncation towards zero), written \<open>sdiv\<close>.
  \<^item> C \<^verbatim>\<open>double\<close> and \<^verbatim>\<open>float\<close> values are the real numbers they denote;
    the rounding of floating-point operations is not modelled. The results of the
    header's two divisions are of type \<open>c_double\<close>, which has the infinities and NaN
    that a division by zero gives.
  \<^item> A pointer to a path string is an address; the memory maps every address to the
    string readable there. The caller owns that memory and may change it between calls.
  \<^item> Reading or writing outside an array, dereferencing a null pointer and copying more
    bytes than a buffer holds are \<open>Undefined_Behaviour\<close>; a failed \<^verbatim>\<open>assert\<close>
    (the header is modelled as compiled without \<^verbatim>\<open>NDEBUG\<close>) is an error of its own.
\<close>

subsection \<open>Errors and C arrays\<close>

datatype error =
    Assert_FT_Init_FreeType
  | Assert_face_lt_MAXFONTS
  | Assert_FT_New_Face
  | Assert_font_lt_MAXFONTS
  | Undefined_Behaviour

definition MAXFONTS :: int where
  "MAXFONTS = 16"

definition array_read :: "'a list \<Rightarrow> int \<Rightarrow> error + 'a" where
  "array_read xs i =
     (if 0 \<le> i \<and> i < int (length xs) then Inr (xs ! nat i) else Inl Undefined_Behaviour)"

definition array_write :: "'a list \<Rightarrow> int \<Rightarrow> 'a \<Rightarrow> error + 'a list" where
  "array_write xs i v =
     (if 0 \<le> i \<and> i < int (length xs) then Inr (xs[nat i := v]) else Inl Undefined_Behaviour)"

text \<open>
  \<^verbatim>\<open>char *tmp = malloc(len+1); memmove(tmp, text, len); tmp[len] = 0;\<close>
  (lines 328-330 and 340-342): the first \<open>len\<close> bytes of \<open>text\<close>, followed by the
  terminating NUL byte. \<open>text\<close> is the bytes readable at the pointer.
\<close>

definition terminated_copy :: "string \<Rightarrow> int \<Rightarrow> error + string" where
  "terminated_copy text len =
     (if 0 \<le> len \<and> len \<le> int (length text)
      then Inr (take (nat len) text @ [CHR 0x00])
      else Inl Undefined_Behaviour)"

subsection \<open>Division of doubles\<close>

text \<open>
  A \<^verbatim>\<open>double\<close> that comes out of a division: finite, an infinity or not a number.
  \<open>double_div\<close> is the division of IEEE 754 with the finite quotients exact. The sign
  of a zero is not kept: a zero divisor counts as \<open>+0\<close>, which is what the header's
  divisors are (a size from an unsigned field, or a quotient of two such sizes).
\<close>

datatype c_double = Finite real | Pos_inf | Neg_inf | NaN

fun double_div :: "c_double \<Rightarrow> c_double \<Rightarrow> c_double" where
  "double_div (Finite a) (Finite b) =
     (if b \<noteq> 0 then Finite (a / b)
      else if a = 0 then NaN
      else if 0 < a then Pos_inf
      else Neg_inf)"
| "double_div (Finite a) Pos_inf = Finite 0"
| "double_div (Finite a) Neg_inf = Finite 0"
| "double_div Pos_inf (Finite b) = (if b < 0 then Neg_inf else Pos_inf)"
| "double_div Neg_inf (Finite b) = (if b < 0 then Pos_inf else Neg_inf)"
| "double_div a b = NaN"

subsection \<open>The libraries the header calls\<close>

text \<open>
  Modelled from the spec: Cairo and FreeType are not under \<^verbatim>\<open>src/\<close>. A drawing
  context is the state the header can observe (its transformation matrix, the selected
  font face and size) together with the list of calls made on it. What the libraries
  answer (which files are fonts, the metrics of a face, the extents of a text) is the
  environment \<open>env\<close>.
\<close>

datatype FT_Face = FT_Face nat

datatype cairo_font_face_t = Cairo_ft_font_face FT_Face

record FT_Library =
  ft_loaded :: "string list"

record cairo_matrix_t =
  m_xx :: real
  m_yx :: real
  m_xy :: real
  m_yy :: real
  m_x0 :: real
  m_y0 :: real

record cairo_surface_t =
  surf_data :: "nat option"
  surf_width :: int
  surf_height :: int
  surf_stride :: int

record cairo_font_extents_t =
  fe_ascent :: real
  fe_descent :: real
  fe_height :: real
  fe_max_x_advance :: real
  fe_max_y_advance :: real

record cairo_text_extents_t =
  te_x_bearing :: real
  te_y_bearing :: real
  te_width :: real
  te_height :: real
  te_x_advance :: real
  te_y_advance :: real

datatype cairo_op =
    Set_source_rgba real real real real
  | Reset_clip
  | New_path
  | Move_to real real
  | Line_to real real
  | Clip
  | Set_line_width real
  | Stroke
  | Fill
  | New_sub_path
  | Close_path
  | Arc real real real real real
  | Rectangle real real real real
  | Scale c_double c_double
  | Set_matrix cairo_matrix_t
  | Set_source_surface cairo_surface_t c_double c_double
  | Paint
  | Surface_flush cairo_surface_t
  | Surface_destroy cairo_surface_t
  | Set_font_face "cairo_font_face_t option"
  | Set_font_size real
  | Show_text string
  | Destroy

record cairo_t =
  cr_target :: cairo_surface_t
  cr_matrix :: cairo_matrix_t
  cr_font_face :: "cairo_font_face_t option"
  cr_font_size :: real
  cr_ops :: "cairo_op list"

record env =
  ft_init_ok :: bool
  font_files :: "string \<Rightarrow> FT_Face option"
  font_extents :: "cairo_font_face_t option \<Rightarrow> real \<Rightarrow> cairo_font_extents_t"
  text_extents :: "cairo_font_face_t option \<Rightarrow> real \<Rightarrow> string \<Rightarrow> cairo_text_extents_t"

definition record_op :: "cairo_t \<Rightarrow> cairo_op \<Rightarrow> cairo_t" where
  "record_op cr c = cr\<lparr>cr_ops := cr_ops cr @ [c]\<rparr>"

definition identity_matrix :: cairo_matrix_t where
  "identity_matrix = \<lparr>m_xx = 1, m_yx = 0, m_xy = 0, m_yy = 1, m_x0 = 0, m_y0 = 0\<rparr>"

definition CAIRO_DEFAULT_FONT_SIZE :: real where
  "CAIRO_DEFAULT_FONT_SIZE = 10"

definition cairo_image_surface_create :: "int \<Rightarrow> int \<Rightarrow> cairo_surface_t" where
  "cairo_image_surface_create w h =
     \<lparr>surf_data = None, surf_width = w, surf_height = h, surf_stride = 4 * w\<rparr>"

definition cairo_image_surface_create_for_data ::
  "nat \<Rightarrow> int \<Rightarrow> int \<Rightarrow> int \<Rightarrow> cairo_surface_t" where
  "cairo_image_surface_create_for_data data w h stride =
     \<lparr>surf_data = Some data, surf_width = w, surf_height = h, surf_stride = stride\<rparr>"

definition cairo_create :: "cairo_surface_t \<Rightarrow> cairo_t" where
  "cairo_create surface =
     \<lparr>cr_target = surface, cr_matrix = identity_matrix, cr_font_face = None,
      cr_font_size = CAIRO_DEFAULT_FONT_SIZE, cr_ops = []\<rparr>"

definition cairo_set_source_rgba :: "cairo_t \<Rightarrow> real \<Rightarrow> real \<Rightarrow> real \<Rightarrow> real \<Rightarrow> cairo_t" where
  "cairo_set_source_rgba cr r g b a = record_op cr (Set_source_rgba r g b a)"

definition cairo_reset_clip :: "cairo_t \<Rightarrow> cairo_t" where
  "cairo_reset_clip cr = record_op cr Reset_clip"

definition cairo_new_path :: "cairo_t \<Rightarrow> cairo_t" where
  "cairo_new_path cr = record_op cr New_path"

definition cairo_move_to :: "cairo_t \<Rightarrow> real \<Rightarrow> real \<Rightarrow> cairo_t" where
  "cairo_move_to cr x y = record_op cr (Move_to x y)"

definition cairo_line_to :: "cairo_t \<Rightarrow> real \<Rightarrow> real \<Rightarrow> cairo_t" where
  "cairo_line_to cr x y = record_op cr (Line_to x y)"

definition cairo_clip :: "cairo_t \<Rightarrow> cairo_t" where
  "cairo_clip cr = record_op cr Clip"

definition cairo_set_line_width :: "cairo_t \<Rightarrow> real \<Rightarrow> cairo_t" where
  "cairo_set_line_width cr w = record_op cr (Set_line_width w)"

definition cairo_stroke :: "cairo_t \<Rightarrow> cairo_t" where
  "cairo_stroke cr = record_op cr Stroke"

definition cairo_fill :: "cairo_t \<Rightarrow> cairo_t" where
  "cairo_fill cr = record_op cr Fill"

definition cairo_new_sub_path :: "cairo_t \<Rightarrow> cairo_t" where
  "cairo_new_sub_path cr = record_op cr New_sub_path"

definition cairo_close_path :: "cairo_t \<Rightarrow> cairo_t" where
  "cairo_close_path cr = record_op cr Close_path"

definition cairo_arc :: "cairo_t \<Rightarrow> real \<Rightarrow> real \<Rightarrow> real \<Rightarrow> real \<Rightarrow> real \<Rightarrow> cairo_t" where
  "cairo_arc cr xc yc radius angle1 angle2 = record_op cr (Arc xc yc radius angle1 angle2)"

definition cairo_rectangle :: "cairo_t \<Rightarrow> real \<Rightarrow> real \<Rightarrow> real \<Rightarrow> real \<Rightarrow> cairo_t" where
  "cairo_rectangle cr x y w h = record_op cr (Rectangle x y w h)"

definition cairo_get_matrix :: "cairo_t \<Rightarrow> cairo_matrix_t" where
  "cairo_get_matrix cr = cr_matrix cr"

text \<open>
  \<^verbatim>\<open>cairo_scale\<close> scales the user-space axes: the new transformation is the scaling
  followed by the old one. Cairo refuses a factor that is zero or not finite: the
  transformation stays as it was. (Cairo then also puts the context into its error state,
  in which later calls draw nothing; the model records the calls the header makes and
  does not follow that state.) \<open>cairo_user_to_device\<close> is where a user-space point
  lands in device (pixel) space under a transformation.
\<close>

definition cairo_scale :: "cairo_t \<Rightarrow> c_double \<Rightarrow> c_double \<Rightarrow> cairo_t" where
  "cairo_scale cr sx sy =
     record_op
       (case (sx, sy) of
          (Finite a, Finite b) \<Rightarrow>
            if a * b \<noteq> 0 then
              (let m = cr_matrix cr
               in cr\<lparr>cr_matrix := m\<lparr>m_xx := a * m_xx m, m_yx := a * m_yx m,
                                       m_xy := b * m_xy m, m_yy := b * m_yy m\<rparr>\<rparr>)
            else cr
        | _ \<Rightarrow> cr)
       (Scale sx sy)"

definition cairo_set_matrix :: "cairo_t \<Rightarrow> cairo_matrix_t \<Rightarrow> cairo_t" where
  "cairo_set_matrix cr m = record_op (cr\<lparr>cr_matrix := m\<rparr>) (Set_matrix m)"

definition cairo_user_to_device :: "cairo_matrix_t \<Rightarrow> real \<times> real \<Rightarrow> real \<times> real" where
  "cairo_user_to_device m p =
     (m_xx m * fst p + m_xy m * snd p + m_x0 m, m_yx m * fst p + m_yy m * snd p + m_y0 m)"

definition cairo_set_source_surface ::
  "cairo_t \<Rightarrow> cairo_surface_t \<Rightarrow> c_double \<Rightarrow> c_double \<Rightarrow> cairo_t" where
  "cairo_set_source_surface cr surface x y = record_op cr (Set_source_surface surface x y)"

definition cairo_paint :: "cairo_t \<Rightarrow> cairo_t" where
  "cairo_paint cr = record_op cr Paint"

text \<open>
  The calls on a surface are recorded in the context \<open>cr\<close> they are made beside.
\<close>

definition cairo_surface_flush :: "cairo_t \<Rightarrow> cairo_surface_t \<Rightarrow> cairo_t" where
  "cairo_surface_flush cr surface = record_op cr (Surface_flush surface)"

definition cairo_surface_destroy :: "cairo_t \<Rightarrow> cairo_surface_t \<Rightarrow> cairo_t" where
  "cairo_surface_destroy cr surface = record_op cr (Surface_destroy surface)"

definition cairo_destroy :: "cairo_t \<Rightarrow> cairo_t" where
  "cairo_destroy cr = record_op cr Destroy"

definition cairo_set_font_face :: "cairo_t \<Rightarrow> cairo_font_face_t option \<Rightarrow> cairo_t" where
  "cairo_set_font_face cr face = record_op (cr\<lparr>cr_font_face := face\<rparr>) (Set_font_face face)"

definition cairo_set_font_size :: "cairo_t \<Rightarrow> real \<Rightarrow> cairo_t" where
  "cairo_set_font_size cr sz = record_op (cr\<lparr>cr_font_size := sz\<rparr>) (Set_font_size sz)"

definition cairo_font_extents :: "env \<Rightarrow> cairo_t \<Rightarrow> cairo_font_extents_t" where
  "cairo_font_extents e cr = font_extents e (cr_font_face cr) (cr_font_size cr)"

definition cairo_text_extents :: "env \<Rightarrow> cairo_t \<Rightarrow> string \<Rightarrow> cairo_text_extents_t" where
  "cairo_text_extents e cr utf8 = text_extents e (cr_font_face cr) (cr_font_size cr) utf8"

definition cairo_show_text :: "cairo_t \<Rightarrow> string \<Rightarrow> cairo_t" where
  "cairo_show_text cr utf8 = record_op cr (Show_text utf8)"

definition cairo_ft_font_face_create_for_ft_face :: "FT_Face \<Rightarrow> cairo_font_face_t" where
  "cairo_ft_font_face_create_for_ft_face ft = Cairo_ft_font_face ft"

text \<open>
  \<^verbatim>\<open>FT_New_Face\<close> reads the file at \<open>path\<close>; the library handle keeps the list of
  the files read through it. On a null library handle it fails without reading.
\<close>

definition FT_New_Face ::
  "env \<Rightarrow> FT_Library option \<Rightarrow> string \<Rightarrow> FT_Library option \<times> FT_Face option" where
  "FT_New_Face e library path =
     (case library of
        None \<Rightarrow> (None, None)
      | Some lib \<Rightarrow> (Some (lib\<lparr>ft_loaded := ft_loaded lib @ [path]\<rparr>), font_files e path))"

text \<open>
  Modelled from the spec: the toolkit's header is not under \<^verbatim>\<open>src/\<close>. Its
  \<^verbatim>\<open>NK_MAX(a,b)\<close> is \<^verbatim>\<open>((a) < (b) ? (b) : (a))\<close>, its \<^verbatim>\<open>NK_PI\<close> the literal
  \<^verbatim>\<open>3.141592654f\<close>; a colour is four bytes, a point two integers, a command a tagged
  record, and \<^verbatim>\<open>nk_clear\<close> empties the command list of the context.
\<close>

definition NK_MAX :: "real \<Rightarrow> real \<Rightarrow> real" where
  "NK_MAX a b = (if a < b then b else a)"

definition NK_PI :: real where
  "NK_PI = 3.141592654"

record nk_color =
  col_r :: "8 word"
  col_g :: "8 word"
  col_b :: "8 word"
  col_a :: "8 word"

record nk_vec2i =
  vec_x :: int
  vec_y :: int

record nk_rect_t =
  rect_x :: real
  rect_y :: real
  rect_w :: real
  rect_h :: real

definition nk_rect :: "real \<Rightarrow> real \<Rightarrow> real \<Rightarrow> real \<Rightarrow> nk_rect_t" where
  "nk_rect x y w h = \<lparr>rect_x = x, rect_y = y, rect_w = w, rect_h = h\<rparr>"

record nk_image =
  img_handle :: nat
  img_w :: int
  img_h :: int

text \<open>
  The commands, with the fields of each in the order given here.
  \<^item> \<open>NK_COMMAND_SCISSOR x y w h\<close>
  \<^item> \<open>NK_COMMAND_LINE line_thickness begin end color\<close>
  \<^item> \<open>NK_COMMAND_CURVE line_thickness begin end ctrl0 ctrl1 color\<close>
  \<^item> \<open>NK_COMMAND_RECT rounding line_thickness x y w h color\<close>
  \<^item> \<open>NK_COMMAND_RECT_FILLED rounding x y w h color\<close>
  \<^item> \<open>NK_COMMAND_RECT_MULTI_COLOR x y w h left top bottom right\<close>
  \<^item> \<open>NK_COMMAND_CIRCLE x y line_thickness w h color\<close>
  \<^item> \<open>NK_COMMAND_CIRCLE_FILLED x y w h color\<close>
  \<^item> \<open>NK_COMMAND_ARC cx cy r line_thickness a0 a1 color\<close>
  \<^item> \<open>NK_COMMAND_ARC_FILLED cx cy r a0 a1 color\<close>
  \<^item> \<open>NK_COMMAND_TRIANGLE line_thickness a b c color\<close>
  \<^item> \<open>NK_COMMAND_TRIANGLE_FILLED a b c color\<close>
  \<^item> \<open>NK_COMMAND_POLYGON color line_thickness point_count points\<close>
  \<^item> \<open>NK_COMMAND_POLYGON_FILLED color point_count points\<close>
  \<^item> \<open>NK_COMMAND_POLYLINE color line_thickness point_count points\<close>
  \<^item> \<open>NK_COMMAND_TEXT font background foreground x y w h height length string\<close>,
    where \<open>font\<close> is the index of the entry of \<open>nk_cairo_fonts\<close> whose \<open>font\<close>
    member the pointer designates
  \<^item> \<open>NK_COMMAND_IMAGE x y w h img col\<close>
\<close>

datatype nk_command =
    NK_COMMAND_NOP
  | NK_COMMAND_SCISSOR int int int int
  | NK_COMMAND_LINE int nk_vec2i nk_vec2i nk_color
  | NK_COMMAND_CURVE int nk_vec2i nk_vec2i nk_vec2i nk_vec2i nk_color
  | NK_COMMAND_RECT int int int int int int nk_color
  | NK_COMMAND_RECT_FILLED int int int int int nk_color
  | NK_COMMAND_RECT_MULTI_COLOR int int int int nk_color nk_color nk_color nk_color
  | NK_COMMAND_CIRCLE int int int int int nk_color
  | NK_COMMAND_CIRCLE_FILLED int int int int nk_color
  | NK_COMMAND_ARC int int int int real real nk_color
  | NK_COMMAND_ARC_FILLED int int int real real nk_color
  | NK_COMMAND_TRIANGLE int nk_vec2i nk_vec2i nk_vec2i nk_color
  | NK_COMMAND_TRIANGLE_FILLED nk_vec2i nk_vec2i nk_vec2i nk_color
  | NK_COMMAND_POLYGON nk_color int int "nk_vec2i list"
  | NK_COMMAND_POLYGON_FILLED nk_color int "nk_vec2i list"
  | NK_COMMAND_POLYLINE nk_color int int "nk_vec2i list"
  | NK_COMMAND_TEXT int nk_color nk_color int int int int real int string
  | NK_COMMAND_IMAGE int int int int nk_image nk_color
  | NK_COMMAND_CUSTOM

record nk_context =
  ctx_commands :: "nk_command list"

definition nk_clear :: "nk_context \<Rightarrow> nk_context" where
  "nk_clear ctx = ctx\<lparr>ctx_commands := []\<rparr>"

subsection \<open>The drawing primitives (lines 109-315)\<close>

definition nk_cairo_set_color :: "cairo_t \<Rightarrow> nk_color \<Rightarrow> cairo_t" where
  "nk_cairo_set_color cairo col =
     cairo_set_source_rgba cairo
       (real (unat (col_r col)) / 255)
       (real (unat (col_g col)) / 255)
       (real (unat (col_b col)) / 255)
       (real (unat (col_a col)) / 255)"

definition nk_cairo_scissor :: "cairo_t \<Rightarrow> real \<Rightarrow> real \<Rightarrow> real \<Rightarrow> real \<Rightarrow> cairo_t" where
  "nk_cairo_scissor cairo x y w h =
     (let cairo = cairo_reset_clip cairo;
          cairo = cairo_new_path cairo;
          cairo = cairo_move_to cairo x y;
          cairo = cairo_line_to cairo (x + w) y;
          cairo = cairo_line_to cairo (x + w) (y + h);
          cairo = cairo_line_to cairo x (y + h);
          cairo = cairo_line_to cairo x y
      in cairo_clip cairo)"

definition nk_cairo_stroke_line ::
  "cairo_t \<Rightarrow> int \<Rightarrow> int \<Rightarrow> int \<Rightarrow> int \<Rightarrow> int \<Rightarrow> nk_color \<Rightarrow> cairo_t" where
  "nk_cairo_stroke_line cairo x0 y0 x1 y1 line_thickness col =
     (let cairo = nk_cairo_set_color cairo col;
          cairo = cairo_set_line_width cairo (real_of_int line_thickness);
          cairo = cairo_move_to cairo (real_of_int x0) (real_of_int y0);
          cairo = cairo_line_to cairo (real_of_int x1) (real_of_int y1)
      in cairo_stroke cairo)"

text \<open>
  The loop \<^verbatim>\<open>for (i = 1; i < count; i++) cairo_line_to(cairo, pnts[i].x, pnts[i].y);\<close>
  of the three point-sequence functions, entered at \<open>i\<close>. \<open>pnts\<close> is the memory of the
  point array; a read beyond it is undefined.
\<close>

function line_to_pnts :: "cairo_t \<Rightarrow> nk_vec2i list \<Rightarrow> int \<Rightarrow> int \<Rightarrow> error + cairo_t" where
  "line_to_pnts cairo pnts count i =
     (if i < count then
        (case array_read pnts i of
           Inl e \<Rightarrow> Inl e
         | Inr p \<Rightarrow>
             line_to_pnts (cairo_line_to cairo (real_of_int (vec_x p)) (real_of_int (vec_y p)))
               pnts count (i + 1))
      else Inr cairo)"
  by pat_completeness auto
termination
  by (relation "measure (\<lambda>(cairo, pnts, count, i). nat (count - i))") auto

definition nk_cairo_stroke_polygon ::
  "cairo_t \<Rightarrow> nk_vec2i list \<Rightarrow> int \<Rightarrow> int \<Rightarrow> nk_color \<Rightarrow> error + cairo_t" where
  "nk_cairo_stroke_polygon cairo pnts count line_thickness col =
     (let cairo = nk_cairo_set_color cairo col;
          cairo = cairo_set_line_width cairo (real_of_int line_thickness);
          cairo = cairo_new_sub_path cairo
      in case array_read pnts 0 of
           Inl e \<Rightarrow> Inl e
         | Inr p0 \<Rightarrow>
             (let cairo = cairo_move_to cairo (real_of_int (vec_x p0)) (real_of_int (vec_y p0))
              in case line_to_pnts cairo pnts count 1 of
                   Inl e \<Rightarrow> Inl e
                 | Inr cairo \<Rightarrow>
                     (let cairo = cairo_line_to cairo (real_of_int (vec_x p0)) (real_of_int (vec_y p0));
                          cairo = cairo_close_path cairo
                      in Inr (cairo_stroke cairo))))"

definition nk_cairo_fill_polygon ::
  "cairo_t \<Rightarrow> nk_vec2i list \<Rightarrow> int \<Rightarrow> nk_color \<Rightarrow> error + cairo_t" where
  "nk_cairo_fill_polygon cairo pnts count col =
     (let cairo = nk_cairo_set_color cairo col;
          cairo = cairo_new_sub_path cairo
      in case array_read pnts 0 of
           Inl e \<Rightarrow> Inl e
         | Inr p0 \<Rightarrow>
             (let cairo = cairo_move_to cairo (real_of_int (vec_x p0)) (real_of_int (vec_y p0))
              in case line_to_pnts cairo pnts count 1 of
                   Inl e \<Rightarrow> Inl e
                 | Inr cairo \<Rightarrow>
                     (let cairo = cairo_line_to cairo (real_of_int (vec_x p0)) (real_of_int (vec_y p0));
                          cairo = cairo_close_path cairo
                      in Inr (cairo_fill cairo))))"

definition nk_cairo_stroke_arc ::
  "cairo_t \<Rightarrow> int \<Rightarrow> int \<Rightarrow> int \<Rightarrow> real \<Rightarrow> real \<Rightarrow> int \<Rightarrow> nk_color \<Rightarrow> cairo_t" where
  "nk_cairo_stroke_arc cairo x y r a0 a1 line_thickness col =
     (let cairo = nk_cairo_set_color cairo col;
          cairo = cairo_set_line_width cairo (real_of_int line_thickness);
          cairo = cairo_new_sub_path cairo;
          cairo = cairo_arc cairo (real_of_int x) (real_of_int y) (real_of_int r) a0 a1;
          cairo = cairo_close_path cairo
      in cairo_stroke cairo)"

definition nk_cairo_fill_arc ::
  "cairo_t \<Rightarrow> int \<Rightarrow> int \<Rightarrow> int \<Rightarrow> real \<Rightarrow> real \<Rightarrow> nk_color \<Rightarrow> cairo_t" where
  "nk_cairo_fill_arc cairo x y r a0 a1 col =
     (let cairo = nk_cairo_set_color cairo col;
          cairo = cairo_new_sub_path cairo;
          cairo = cairo_arc cairo (real_of_int x) (real_of_int y) (real_of_int r) a0 a1;
          cairo = cairo_close_path cairo
      in cairo_fill cairo)"

definition nk_cairo_fill_circle :: "cairo_t \<Rightarrow> int \<Rightarrow> int \<Rightarrow> int \<Rightarrow> nk_color \<Rightarrow> cairo_t" where
  "nk_cairo_fill_circle cairo x y r col =
     (let cairo = nk_cairo_set_color cairo col;
          cairo = cairo_new_sub_path cairo;
          cairo = cairo_arc cairo (real_of_int x) (real_of_int y) (real_of_int r) 0 (2 * NK_PI);
          cairo = cairo_close_path cairo
      in cairo_fill cairo)"

definition nk_cairo_stroke_circle ::
  "cairo_t \<Rightarrow> int \<Rightarrow> int \<Rightarrow> int \<Rightarrow> int \<Rightarrow> nk_color \<Rightarrow> cairo_t" where
  "nk_cairo_stroke_circle cairo x y r line_thickness col =
     (let cairo = nk_cairo_set_color cairo col;
          cairo = cairo_set_line_width cairo (real_of_int line_thickness);
          cairo = cairo_new_sub_path cairo;
          cairo = cairo_arc cairo (real_of_int x) (real_of_int y) (real_of_int r) 0 (2 * NK_PI);
          cairo = cairo_close_path cairo
      in cairo_stroke cairo)"

definition nk_cairo_stroke_rect ::
  "cairo_t \<Rightarrow> int \<Rightarrow> int \<Rightarrow> int \<Rightarrow> int \<Rightarrow> int \<Rightarrow> int \<Rightarrow> nk_color \<Rightarrow> cairo_t" where
  "nk_cairo_stroke_rect cairo x y w h r line_thickness col =
     (let cairo = nk_cairo_set_color cairo col;
          cairo = cairo_set_line_width cairo (real_of_int line_thickness);
          cairo =
            (if r = 0 then
               cairo_rectangle cairo (real_of_int x) (real_of_int y) (real_of_int w) (real_of_int h)
             else
               (let degrees = NK_PI / 180;
                    cairo = cairo_new_sub_path cairo;
                    cairo = cairo_arc cairo (real_of_int (x + w - r)) (real_of_int (y + r))
                              (real_of_int r) (- 90 * degrees) (0 * degrees);
                    cairo = cairo_arc cairo (real_of_int (x + w - r)) (real_of_int (y + h - r))
                              (real_of_int r) (0 * degrees) (90 * degrees);
                    cairo = cairo_arc cairo (real_of_int (x + r)) (real_of_int (y + h - r))
                              (real_of_int r) (90 * degrees) (180 * degrees);
                    cairo = cairo_arc cairo (real_of_int (x + r)) (real_of_int (y + r))
                              (real_of_int r) (180 * degrees) (270 * degrees)
                in cairo_close_path cairo))
      in cairo_stroke cairo)"

definition nk_cairo_fill_rect ::
  "cairo_t \<Rightarrow> int \<Rightarrow> int \<Rightarrow> int \<Rightarrow> int \<Rightarrow> int \<Rightarrow> nk_color \<Rightarrow> cairo_t" where
  "nk_cairo_fill_rect cairo x y w h r col =
     (let cairo = nk_cairo_set_color cairo col;
          cairo =
            (if r = 0 then
               cairo_rectangle cairo (real_of_int x) (real_of_int y) (real_of_int w) (real_of_int h)
             else
               (let degrees = NK_PI / 180;
                    cairo = cairo_new_sub_path cairo;
                    cairo = cairo_arc cairo (real_of_int (x + w - r)) (real_of_int (y + r))
                              (real_of_int r) (- 90 * degrees) (0 * degrees);
                    cairo = cairo_arc cairo (real_of_int (x + w - r)) (real_of_int (y + h - r))
                              (real_of_int r) (0 * degrees) (90 * degrees);
                    cairo = cairo_arc cairo (real_of_int (x + r)) (real_of_int (y + h - r))
                              (real_of_int r) (90 * degrees) (180 * degrees);
                    cairo = cairo_arc cairo (real_of_int (x + r)) (real_of_int (y + r))
                              (real_of_int r) (180 * degrees) (270 * degrees)
                in cairo_close_path cairo))
      in cairo_fill cairo)"

definition nk_cairo_stroke_triangle ::
  "cairo_t \<Rightarrow> int \<Rightarrow> int \<Rightarrow> int \<Rightarrow> int \<Rightarrow> int \<Rightarrow> int \<Rightarrow> int \<Rightarrow> nk_color \<Rightarrow> cairo_t" where
  "nk_cairo_stroke_triangle cairo x0 y0 x1 y1 x2 y2 line_thickness col =
     (let cairo = nk_cairo_set_color cairo col;
          cairo = cairo_set_line_width cairo (real_of_int line_thickness);
          cairo = cairo_new_sub_path cairo;
          cairo = cairo_move_to cairo (real_of_int x0) (real_of_int y0);
          cairo = cairo_line_to cairo (real_of_int x1) (real_of_int y1);
          cairo = cairo_line_to cairo (real_of_int x2) (real_of_int y2);
          cairo = cairo_line_to cairo (real_of_int x0) (real_of_int y0);
          cairo = cairo_close_path cairo
      in cairo_stroke cairo)"

definition nk_cairo_fill_triangle ::
  "cairo_t \<Rightarrow> int \<Rightarrow> int \<Rightarrow> int \<Rightarrow> int \<Rightarrow> int \<Rightarrow> int \<Rightarrow> nk_color \<Rightarrow> cairo_t" where
  "nk_cairo_fill_triangle cairo x0 y0 x1 y1 x2 y2 col =
     (let cairo = nk_cairo_set_color cairo col;
          cairo = cairo_new_sub_path cairo;
          cairo = cairo_move_to cairo (real_of_int x0) (real_of_int y0);
          cairo = cairo_line_to cairo (real_of_int x1) (real_of_int y1);
          cairo = cairo_line_to cairo (real_of_int x2) (real_of_int y2);
          cairo = cairo_line_to cairo (real_of_int x0) (real_of_int y0);
          cairo = cairo_close_path cairo
      in cairo_fill cairo)"

definition nk_cairo_stroke_polyline ::
  "cairo_t \<Rightarrow> nk_vec2i list \<Rightarrow> int \<Rightarrow> int \<Rightarrow> nk_color \<Rightarrow> error + cairo_t" where
  "nk_cairo_stroke_polyline cairo pnts count line_thickness col =
     (let cairo = nk_cairo_set_color cairo col;
          cairo = cairo_set_line_width cairo (real_of_int line_thickness);
          cairo = cairo_new_sub_path cairo
      in case array_read pnts 0 of
           Inl e \<Rightarrow> Inl e
         | Inr p0 \<Rightarrow>
             (let cairo = cairo_move_to cairo (real_of_int (vec_x p0)) (real_of_int (vec_y p0))
              in case line_to_pnts cairo pnts count 1 of
                   Inl e \<Rightarrow> Inl e
                 | Inr cairo \<Rightarrow>
                     (let cairo = cairo_close_path cairo
                      in Inr (cairo_stroke cairo))))"

definition nk_cairo_drawimage ::
  "cairo_t \<Rightarrow> int \<Rightarrow> int \<Rightarrow> int \<Rightarrow> int \<Rightarrow> nk_image \<Rightarrow> nk_color \<Rightarrow> cairo_t" where
  "nk_cairo_drawimage cairo x y w h img col =
     (let xs = double_div (Finite (real_of_int w)) (Finite (real_of_int (img_w img)));
          ys = double_div (Finite (real_of_int h)) (Finite (real_of_int (img_h img)));
          matrix = cairo_get_matrix cairo;
          cairo = cairo_scale cairo xs ys;
          surface = cairo_image_surface_create_for_data (img_handle img)
                      (img_w img) (img_h img) (img_w img * 4);
          cairo = cairo_set_source_surface cairo surface
                    (double_div (Finite (real_of_int x)) xs)
                    (double_div (Finite (real_of_int y)) ys);
          cairo = cairo_paint cairo;
          cairo = cairo_surface_destroy cairo surface
      in cairo_set_matrix cairo matrix)"

subsection \<open>The font tables (lines 86-107)\<close>

text \<open>
  The member \<open>font.width\<close> of a sized font is a function pointer; the only function
  the header ever stores there is \<^verbatim>\<open>nk_cairo_text_width\<close>. A pointer to an entry of
  \<open>nk_cairo_fonts\<close> (the \<open>userdata\<close> of a font, a font handle) is the index of the
  entry; \<open>None\<close> is the null pointer.
\<close>

text \<open>
  A face entry keeps the caller's pointer \<open>ttf\<close> (line 371), not a copy of the string:
  \<open>fc_ttf\<close> is an address, and what it designates is read from the memory at the time
  of each comparison (line 362).
\<close>

type_synonym memory = "nat \<Rightarrow> string"

datatype width_callback = Nk_cairo_text_width

record nk_user_font =
  uf_userdata :: "int option"
  uf_height :: real
  uf_width :: "width_callback option"

record nk_cairo_face_t =
  fc_ttf :: "nat option"
  fc_ft :: "FT_Face option"
  fc_ca :: "cairo_font_face_t option"

record nk_cairo_font_t =
  fnt_font :: nk_user_font
  fnt_face :: int
  fnt_size :: int

record state =
  nk_cairo_ft :: "FT_Library option"
  nk_cairo_face :: int
  nk_cairo_faces :: "nk_cairo_face_t list"
  nk_cairo_font :: int
  nk_cairo_fonts :: "nk_cairo_font_t list"
  nk_cairo :: "cairo_t option"

text \<open>The globals as the C runtime initialises them: all bytes zero.\<close>

definition zero_face :: nk_cairo_face_t where
  "zero_face = \<lparr>fc_ttf = None, fc_ft = None, fc_ca = None\<rparr>"

definition zero_font :: nk_cairo_font_t where
  "zero_font =
     \<lparr>fnt_font = \<lparr>uf_userdata = None, uf_height = 0, uf_width = None\<rparr>,
      fnt_face = 0, fnt_size = 0\<rparr>"

definition program_start :: state where
  "program_start =
     \<lparr>nk_cairo_ft = None,
      nk_cairo_face = 0,
      nk_cairo_faces = replicate (nat MAXFONTS) zero_face,
      nk_cairo_font = 0,
      nk_cairo_fonts = replicate (nat MAXFONTS) zero_font,
      nk_cairo = None\<rparr>"

subsection \<open>Text (lines 317-354)\<close>

definition nk_cairo_draw_text ::
  "env \<Rightarrow> state \<Rightarrow> cairo_t \<Rightarrow> int \<Rightarrow> nk_rect_t \<Rightarrow> string \<Rightarrow> int \<Rightarrow> real \<Rightarrow> nk_color
     \<Rightarrow> error + cairo_t" where
  "nk_cairo_draw_text e s cairo font rect text len font_height fg =
     (case array_read (nk_cairo_fonts s) font of
        Inl err \<Rightarrow> Inl err
      | Inr user_font \<Rightarrow>
     (case uf_userdata (fnt_font user_font) of
        None \<Rightarrow> Inl Undefined_Behaviour
      | Some ptr \<Rightarrow>
     (case array_read (nk_cairo_fonts s) ptr of
        Inl err \<Rightarrow> Inl err
      | Inr cfont \<Rightarrow>
     (case array_read (nk_cairo_faces s) (fnt_face cfont) of
        Inl err \<Rightarrow> Inl err
      | Inr cface \<Rightarrow>
     (let cairo = cairo_set_font_face cairo (fc_ca cface);
          cairo = cairo_set_font_size cairo (real_of_int (fnt_size cfont));
          extents = cairo_font_extents e cairo
      in case terminated_copy text len of
           Inl err \<Rightarrow> Inl err
         | Inr tmp \<Rightarrow>
             (let cairo = nk_cairo_set_color cairo fg;
                  cairo = cairo_move_to cairo (rect_x rect) (rect_y rect + fe_ascent extents);
                  cairo = cairo_show_text cairo tmp
              in Inr cairo))))))"

text \<open>
  The text-measurement callback. It works on the scratch context \<open>nk_cairo\<close>, so it
  returns the state as well as the width.
\<close>

definition nk_cairo_text_width ::
  "env \<Rightarrow> state \<Rightarrow> int option \<Rightarrow> real \<Rightarrow> string \<Rightarrow> int \<Rightarrow> error + state \<times> real" where
  "nk_cairo_text_width e s handle h text len =
     (case terminated_copy text len of
        Inl err \<Rightarrow> Inl err
      | Inr tmp \<Rightarrow>
     (case handle of
        None \<Rightarrow> Inl Undefined_Behaviour
      | Some ptr \<Rightarrow>
     (case array_read (nk_cairo_fonts s) ptr of
        Inl err \<Rightarrow> Inl err
      | Inr cfont \<Rightarrow>
     (case array_read (nk_cairo_faces s) (fnt_face cfont) of
        Inl err \<Rightarrow> Inl err
      | Inr cface \<Rightarrow>
     (case nk_cairo s of
        None \<Rightarrow> Inl Undefined_Behaviour
      | Some scratch \<Rightarrow>
     (let scratch = cairo_set_font_face scratch (fc_ca cface);
          scratch = cairo_set_font_size scratch (real_of_int (fnt_size cfont));
          extents = cairo_text_extents e scratch tmp
      in Inr (s\<lparr>nk_cairo := Some scratch\<rparr>,
              NK_MAX (te_width extents + te_x_bearing extents) (te_x_advance extents))))))))"

subsection \<open>Loading a font (lines 356-411)\<close>

text \<open>
  The two search loops of \<^verbatim>\<open>nk_cairo_ttf\<close>, entered at \<open>i\<close>, over a table and its
  count; each returns the index found, or \<open>-1\<close>. \<^verbatim>\<open>strcmp\<close> is 0 exactly when the
  strings at the two addresses are equal.
\<close>

function find_face ::
  "memory \<Rightarrow> nk_cairo_face_t list \<Rightarrow> int \<Rightarrow> nat \<Rightarrow> int \<Rightarrow> error + int" where
  "find_face mem faces n ttf i =
     (if i < n then
        (case array_read faces i of
           Inl err \<Rightarrow> Inl err
         | Inr entry \<Rightarrow>
             (case fc_ttf entry of
                None \<Rightarrow> Inl Undefined_Behaviour
              | Some known \<Rightarrow>
                  if mem ttf = mem known then Inr i else find_face mem faces n ttf (i + 1)))
      else Inr (- 1))"
  by pat_completeness auto
termination
  by (relation "measure (\<lambda>(mem, faces, n, ttf, i). nat (n - i))") auto

function find_font :: "nk_cairo_font_t list \<Rightarrow> int \<Rightarrow> int \<Rightarrow> int \<Rightarrow> int \<Rightarrow> error + int" where
  "find_font fonts n face ttf_size i =
     (if i < n then
        (case array_read fonts i of
           Inl err \<Rightarrow> Inl err
         | Inr entry \<Rightarrow>
             if fnt_face entry = face \<and> fnt_size entry = ttf_size then Inr i
             else find_font fonts n face ttf_size (i + 1))
      else Inr (- 1))"
  by pat_completeness auto
termination
  by (relation "measure (\<lambda>(fonts, n, face, ttf_size, i). nat (n - i))") auto

text \<open>Lines 358-374: the face of the path, loaded if it is not in the table.\<close>

definition ttf_face :: "env \<Rightarrow> memory \<Rightarrow> state \<Rightarrow> nat \<Rightarrow> error + state \<times> int" where
  "ttf_face e mem s ttf =
     (case find_face mem (nk_cairo_faces s) (nk_cairo_face s) ttf 0 of
        Inl err \<Rightarrow> Inl err
      | Inr face \<Rightarrow>
          if face < 0 then
            (let face = nk_cairo_face s;
                 s = s\<lparr>nk_cairo_face := nk_cairo_face s + 1\<rparr>
             in if \<not> face < MAXFONTS then Inl Assert_face_lt_MAXFONTS
                else
                  (case array_read (nk_cairo_faces s) face of
                     Inl err \<Rightarrow> Inl err
                   | Inr entry \<Rightarrow>
                       (case FT_New_Face e (nk_cairo_ft s) (mem ttf) of
                          (library, None) \<Rightarrow> Inl Assert_FT_New_Face
                        | (library, Some ft) \<Rightarrow>
                            (case array_write (nk_cairo_faces s) face
                                    (entry\<lparr>fc_ttf := Some ttf, fc_ft := Some ft,
                                       fc_ca := Some (cairo_ft_font_face_create_for_ft_face ft)\<rparr>) of
                               Inl err \<Rightarrow> Inl err
                             | Inr faces \<Rightarrow>
                                 Inr (s\<lparr>nk_cairo_ft := library, nk_cairo_faces := faces\<rparr>, face)))))
          else Inr (s, face))"

text \<open>Lines 376-399: the sized font of the face, created if it is not in the table.\<close>

definition ttf_font :: "env \<Rightarrow> state \<Rightarrow> int \<Rightarrow> int \<Rightarrow> error + state \<times> int" where
  "ttf_font e s face ttf_size =
     (case find_font (nk_cairo_fonts s) (nk_cairo_font s) face ttf_size 0 of
        Inl err \<Rightarrow> Inl err
      | Inr font \<Rightarrow>
          if font < 0 then
            (let font = nk_cairo_font s;
                 s = s\<lparr>nk_cairo_font := nk_cairo_font s + 1\<rparr>
             in if \<not> font < MAXFONTS then Inl Assert_font_lt_MAXFONTS
                else
                  (case array_read (nk_cairo_faces s) face of
                     Inl err \<Rightarrow> Inl err
                   | Inr cface \<Rightarrow>
                       (case nk_cairo s of
                          None \<Rightarrow> Inl Undefined_Behaviour
                        | Some scratch \<Rightarrow>
                            (let scratch = cairo_set_font_face scratch (fc_ca cface);
                                 scratch = cairo_set_font_size scratch (real_of_int ttf_size);
                                 extents = cairo_font_extents e scratch
                             in case array_write (nk_cairo_fonts s) font
                                     \<lparr>fnt_font = \<lparr>uf_userdata = Some font,
                                                  uf_height = fe_height extents,
                                                  uf_width = Some Nk_cairo_text_width\<rparr>,
                                      fnt_face = face, fnt_size = ttf_size\<rparr> of
                                  Inl err \<Rightarrow> Inl err
                                | Inr fonts \<Rightarrow>
                                    Inr (s\<lparr>nk_cairo_fonts := fonts, nk_cairo := Some scratch\<rparr>,
                                         font)))))
          else Inr (s, font))"

text \<open>
  \<^verbatim>\<open>nk_cairo_ttf\<close> returns \<^verbatim>\<open>&nk_cairo_fonts[font].font\<close>: the handle is the index
  \<open>font\<close>.
\<close>

definition nk_cairo_ttf ::
  "env \<Rightarrow> memory \<Rightarrow> state \<Rightarrow> nat \<Rightarrow> int \<Rightarrow> error + state \<times> int" where
  "nk_cairo_ttf e mem s ttf ttf_size =
     (case ttf_face e mem s ttf of
        Inl err \<Rightarrow> Inl err
      | Inr (s, face) \<Rightarrow> ttf_font e s face ttf_size)"

definition nk_cairo_init :: "env \<Rightarrow> state \<Rightarrow> error + state" where
  "nk_cairo_init e s =
     (if \<not> ft_init_ok e then Inl Assert_FT_Init_FreeType
      else
        (let s = s\<lparr>nk_cairo_ft := Some \<lparr>ft_loaded = []\<rparr>\<rparr>;
             surface = cairo_image_surface_create 1 1;
             scratch = cairo_create surface;
             scratch = cairo_surface_destroy scratch surface
         in Inr (s\<lparr>nk_cairo := Some scratch\<rparr>)))"

subsection \<open>The render pass (lines 413-522)\<close>

definition fprintf_stderr :: "string list \<Rightarrow> string \<Rightarrow> string list" where
  "fprintf_stderr out line = out @ [line]"

text \<open>
  The body of the \<^verbatim>\<open>switch\<close>: one command, on the frame's context \<open>cairo\<close> and the
  lines \<open>out\<close> written to the diagnostic stream so far.
\<close>

fun render_command ::
  "env \<Rightarrow> state \<Rightarrow> nk_command \<Rightarrow> cairo_t \<times> string list \<Rightarrow> error + cairo_t \<times> string list" where
  "render_command e s NK_COMMAND_NOP (cairo, out) = Inr (cairo, out)"
| "render_command e s (NK_COMMAND_SCISSOR x y w h) (cairo, out) =
     Inr (nk_cairo_scissor cairo (real_of_int x) (real_of_int y) (real_of_int w) (real_of_int h), out)"
| "render_command e s (NK_COMMAND_LINE line_thickness p_begin p_end color) (cairo, out) =
     Inr (nk_cairo_stroke_line cairo (vec_x p_begin) (vec_y p_begin) (vec_x p_end) (vec_y p_end)
            line_thickness color, out)"
| "render_command e s (NK_COMMAND_RECT rounding line_thickness x y w h color) (cairo, out) =
     Inr (nk_cairo_stroke_rect cairo x y w h rounding line_thickness color, out)"
| "render_command e s (NK_COMMAND_RECT_FILLED rounding x y w h color) (cairo, out) =
     Inr (nk_cairo_fill_rect cairo x y w h rounding color, out)"
| "render_command e s (NK_COMMAND_CIRCLE x y line_thickness w h color) (cairo, out) =
     (let r = (if w < h then w else h) sdiv 2
      in Inr (nk_cairo_stroke_circle cairo (x + r) (y + r) r line_thickness color, out))"
| "render_command e s (NK_COMMAND_CIRCLE_FILLED x y w h color) (cairo, out) =
     (let r = (if w < h then w else h) sdiv 2
      in Inr (nk_cairo_fill_circle cairo (x + r) (y + r) r color, out))"
| "render_command e s (NK_COMMAND_TRIANGLE line_thickness a b c color) (cairo, out) =
     Inr (nk_cairo_stroke_triangle cairo (vec_x a) (vec_y a) (vec_x b) (vec_y b) (vec_x c) (vec_y c)
            line_thickness color, out)"
| "render_command e s (NK_COMMAND_TRIANGLE_FILLED a b c color) (cairo, out) =
     Inr (nk_cairo_fill_triangle cairo (vec_x a) (vec_y a) (vec_x b) (vec_y b) (vec_x c) (vec_y c)
            color, out)"
| "render_command e s (NK_COMMAND_POLYGON color line_thickness point_count points) (cairo, out) =
     (case nk_cairo_stroke_polygon cairo points point_count line_thickness color of
        Inl err \<Rightarrow> Inl err
      | Inr cairo \<Rightarrow> Inr (cairo, out))"
| "render_command e s (NK_COMMAND_POLYGON_FILLED color point_count points) (cairo, out) =
     (case nk_cairo_fill_polygon cairo points point_count color of
        Inl err \<Rightarrow> Inl err
      | Inr cairo \<Rightarrow> Inr (cairo, out))"
| "render_command e s (NK_COMMAND_POLYLINE color line_thickness point_count points) (cairo, out) =
     (case nk_cairo_stroke_polyline cairo points point_count line_thickness color of
        Inl err \<Rightarrow> Inl err
      | Inr cairo \<Rightarrow> Inr (cairo, out))"
| "render_command e s (NK_COMMAND_TEXT font background foreground x y w h height len string)
       (cairo, out) =
     (case nk_cairo_draw_text e s cairo font
             (nk_rect (real_of_int x) (real_of_int y) (real_of_int w) (real_of_int h))
             string len height foreground of
        Inl err \<Rightarrow> Inl err
      | Inr cairo \<Rightarrow> Inr (cairo, out))"
| "render_command e s (NK_COMMAND_CURVE line_thickness p_begin p_end ctrl0 ctrl1 color) (cairo, out) =
     Inr (cairo, fprintf_stderr out ''NK_COMMAND_CURVE not implemented\<newline>'')"
| "render_command e s (NK_COMMAND_RECT_MULTI_COLOR x y w h c_left c_top c_bottom c_right) (cairo, out) =
     Inr (cairo, fprintf_stderr out ''NK_COMMAND_RECT_MULTI_COLOR not implemented\<newline>'')"
| "render_command e s (NK_COMMAND_IMAGE x y w h img col) (cairo, out) =
     Inr (nk_cairo_drawimage cairo x y w h img col, out)"
| "render_command e s (NK_COMMAND_ARC cx cy r line_thickness a0 a1 color) (cairo, out) =
     (let out = fprintf_stderr out ''NK_COMMAND_ARC\<newline>''
      in Inr (nk_cairo_stroke_arc cairo cx cy r a0 a1 line_thickness color, out))"
| "render_command e s (NK_COMMAND_ARC_FILLED cx cy r a0 a1 color) (cairo, out) =
     (let out = fprintf_stderr out ''NK_COMMAND_ARC_FILLED\<newline>''
      in Inr (nk_cairo_fill_arc cairo cx cy r a0 a1 color, out))"
| "render_command e s NK_COMMAND_CUSTOM (cairo, out) = Inr (cairo, out)"

text \<open>\<^verbatim>\<open>nk_foreach(cmd, ctx)\<close>: the commands of the list, in order.\<close>

fun nk_foreach ::
  "env \<Rightarrow> state \<Rightarrow> nk_command list \<Rightarrow> cairo_t \<times> string list \<Rightarrow> error + cairo_t \<times> string list" where
  "nk_foreach e s [] frame = Inr frame"
| "nk_foreach e s (cmd # cmds) frame =
     (case render_command e s cmd frame of
        Inl err \<Rightarrow> Inl err
      | Inr frame \<Rightarrow> nk_foreach e s cmds frame)"

record render_result =
  rr_cairo :: cairo_t
  rr_stderr :: "string list"
  rr_ctx :: nk_context

definition nk_cairo_render ::
  "env \<Rightarrow> state \<Rightarrow> nk_context \<Rightarrow> nat \<Rightarrow> int \<Rightarrow> int \<Rightarrow> int \<Rightarrow> error + render_result" where
  "nk_cairo_render e s ctx fb w h pitch =
     (let surface = cairo_image_surface_create_for_data fb w h pitch;
          cairo = cairo_create surface;
          cairo = nk_cairo_scissor cairo 0 0 (real_of_int w) (real_of_int h)
      in case nk_foreach e s (ctx_commands ctx) (cairo, []) of
           Inl err \<Rightarrow> Inl err
         | Inr (cairo, out) \<Rightarrow>
             (let cairo = cairo_surface_flush cairo surface;
                  cairo = cairo_surface_destroy cairo surface;
                  cairo = cairo_destroy cairo;
                  ctx = nk_clear ctx
              in Inr \<lparr>rr_cairo = cairo, rr_stderr = out, rr_ctx = ctx\<rparr>))"

subsection \<open>A concrete environment and state\<close>

text \<open>
  Every path but one is a font file, the metrics are proportional to the size, and the
  states are those after \<^verbatim>\<open>nk_cairo_init()\<close> and after
  \<^verbatim>\<open>nk_cairo_ttf("a.ttf", 24)\<close>, as in the example of the header's first comment.
\<close>

definition example_env :: env where
  "example_env =
     \<lparr>ft_init_ok = True,
      font_files = (\<lambda>path. if path = ''missing.ttf'' then None else Some (FT_Face (length path))),
      font_extents = (\<lambda>face sz.
         \<lparr>fe_ascent = 3 * sz / 4, fe_descent = sz / 4, fe_height = sz,
          fe_max_x_advance = sz, fe_max_y_advance = 0\<rparr>),
      text_extents = (\<lambda>face sz utf8.
         \<lparr>te_x_bearing = 1, te_y_bearing = - sz, te_width = sz * real (length utf8 - 1) / 2,
          te_height = sz, te_x_advance = sz * real (length utf8 - 1) / 2, te_y_advance = 0\<rparr>)\<rparr>"

definition example_init :: state where
  "example_init =
     (case nk_cairo_init example_env program_start of Inl err \<Rightarrow> program_start | Inr s \<Rightarrow> s)"

text \<open>
  A memory with \<^verbatim>\<open>"a.ttf"\<close> at the addresses 1 and 4, \<^verbatim>\<open>"b.ttf"\<close> at 2,
  \<^verbatim>\<open>"missing.ttf"\<close> at 3 and a string of its own at every other address; and the
  same memory after the caller has overwritten the buffer at address 1.
\<close>

definition example_mem :: memory where
  "example_mem =
     (\<lambda>a. if a = 1 \<or> a = 4 then ''a.ttf''
          else if a = 2 then ''b.ttf''
          else if a = 3 then ''missing.ttf''
          else replicate a CHR ''f'')"

definition example_mem_overwritten :: memory where
  "example_mem_overwritten = example_mem(1 := ''b.ttf'')"

definition example_state :: state where
  "example_state =
     (case nk_cairo_ttf example_env example_mem example_init 1 24 of
        Inl err \<Rightarrow> example_init
      | Inr (s, font) \<Rightarrow> s)"

definition example_color :: nk_color where
  "example_color = \<lparr>col_r = 0, col_g = 0, col_b = 0, col_a = 255\<rparr>"

definition example_cairo :: cairo_t where
  "example_cairo = cairo_create (cairo_image_surface_create_for_data 0 100 100 400)"

subsection \<open>Notions the properties are stated with\<close>

text \<open>The centre of the bounding box \<open>(x, y, w, h)\<close>.\<close>

definition box_centre :: "int \<Rightarrow> int \<Rightarrow> int \<Rightarrow> int \<Rightarrow> real \<times> real" where
  "box_centre x y w h = (real_of_int x + real_of_int w / 2, real_of_int y + real_of_int h / 2)"

text \<open>
  The line segments a list of calls strokes, as Cairo's reference manual describes paths:
  \<^verbatim>\<open>cairo_move_to\<close> begins a sub-path at a point, \<^verbatim>\<open>cairo_line_to\<close> adds a segment
  from the current point, \<^verbatim>\<open>cairo_close_path\<close> adds a segment from the current point
  to the beginning of the sub-path, and \<^verbatim>\<open>cairo_stroke\<close> draws the path and clears it.
  \<open>cur\<close> is the current point, \<open>start\<close> the beginning of the current sub-path and
  \<open>path\<close> the segments of the path so far. Arcs and rectangles are left out.
\<close>

fun stroked_segments ::
  "cairo_op list \<Rightarrow> (real \<times> real) option \<Rightarrow> (real \<times> real) option
     \<Rightarrow> ((real \<times> real) \<times> (real \<times> real)) list \<Rightarrow> ((real \<times> real) \<times> (real \<times> real)) list" where
  "stroked_segments [] cur start path = []"
| "stroked_segments (Move_to x y # ops) cur start path =
     stroked_segments ops (Some (x, y)) (Some (x, y)) path"
| "stroked_segments (Line_to x y # ops) cur start path =
     (case cur of
        None \<Rightarrow> stroked_segments ops (Some (x, y)) (Some (x, y)) path
      | Some p \<Rightarrow> stroked_segments ops (Some (x, y)) start (path @ [(p, (x, y))]))"
| "stroked_segments (Close_path # ops) cur start path =
     (case (cur, start) of
        (Some p, Some q) \<Rightarrow> stroked_segments ops (Some q) (Some q) (path @ [(p, q)])
      | _ \<Rightarrow> stroked_segments ops cur start path)"
| "stroked_segments (New_sub_path # ops) cur start path = stroked_segments ops None None path"
| "stroked_segments (New_path # ops) cur start path = stroked_segments ops None None []"
| "stroked_segments (Stroke # ops) cur start path = path @ stroked_segments ops None None []"
| "stroked_segments (Fill # ops) cur start path = stroked_segments ops None None []"
| "stroked_segments (Clip # ops) cur start path = stroked_segments ops None None []"
| "stroked_segments (other # ops) cur start path = stroked_segments ops cur start path"

text \<open>
  The invariant of the font tables: both counts are within the capacity of the arrays,
  every face entry below the count has a path, every sized font below the count refers to
  a face below the face count, and the scratch context exists.
\<close>

definition tables_ok :: "state \<Rightarrow> bool" where
  "tables_ok s \<longleftrightarrow>
     0 \<le> nk_cairo_face s \<and> nk_cairo_face s \<le> MAXFONTS \<and>
     0 \<le> nk_cairo_font s \<and> nk_cairo_font s \<le> MAXFONTS \<and>
     int (length (nk_cairo_faces s)) = MAXFONTS \<and>
     int (length (nk_cairo_fonts s)) = MAXFONTS \<and>
     list_all (\<lambda>entry. fc_ttf entry \<noteq> None) (take (nat (nk_cairo_face s)) (nk_cairo_faces s)) \<and>
     list_all (\<lambda>entry. 0 \<le> fnt_face entry \<and> fnt_face entry < nk_cairo_face s)
       (take (nat (nk_cairo_font s)) (nk_cairo_fonts s)) \<and>
     nk_cairo s \<noteq> None"

text \<open>
  A caller that requests fonts one after the other, each request with the memory as it is
  at that call; the first failure ends the process.
\<close>

fun ttf_calls :: "env \<Rightarrow> state \<Rightarrow> (memory \<times> nat \<times> int) list \<Rightarrow> error + state" where
  "ttf_calls e s [] = Inr s"
| "ttf_calls e s ((mem, ttf, ttf_size) # calls) =
     (case nk_cairo_ttf e mem s ttf ttf_size of
        Inl err \<Rightarrow> Inl err
      | Inr (s, font) \<Rightarrow> ttf_calls e s calls)"

text \<open>
  Where the origin of a source surface, set at the user-space position \<open>(px, py)\<close>,
  lands in device space under a transformation; nowhere when a coordinate is not finite.
\<close>

definition source_origin :: "cairo_matrix_t \<Rightarrow> c_double \<Rightarrow> c_double \<Rightarrow> (real \<times> real) option" where
  "source_origin m px py =
     (case (px, py) of
        (Finite a, Finite b) \<Rightarrow> Some (cairo_user_to_device m (a, b))
      | _ \<Rightarrow> None)"

text \<open>
  The commands the render pass handles without leaving memory it may read: the points a
  point-sequence command announces are there (at least one, which the functions read first),
  and a text command designates an entry of the sized-font table whose \<open>userdata\<close>
  designates an entry with a face index inside the face table, with \<open>length\<close> bytes of
  text. The toolkit produces such commands from the fonts \<^verbatim>\<open>nk_cairo_ttf\<close> returned.
\<close>

definition font_ok :: "state \<Rightarrow> int \<Rightarrow> bool" where
  "font_ok s font =
     (case array_read (nk_cairo_fonts s) font of
        Inl err \<Rightarrow> False
      | Inr user_font \<Rightarrow>
          (case uf_userdata (fnt_font user_font) of
             None \<Rightarrow> False
           | Some ptr \<Rightarrow>
               (case array_read (nk_cairo_fonts s) ptr of
                  Inl err \<Rightarrow> False
                | Inr cfont \<Rightarrow>
                    (case array_read (nk_cairo_faces s) (fnt_face cfont) of
                       Inl err \<Rightarrow> False
                     | Inr cface \<Rightarrow> True))))"

fun cmd_ok :: "state \<Rightarrow> nk_command \<Rightarrow> bool" where
  "cmd_ok s (NK_COMMAND_POLYGON color line_thickness point_count points) =
     (points \<noteq> [] \<and> point_count \<le> int (length points))"
| "cmd_ok s (NK_COMMAND_POLYGON_FILLED color point_count points) =
     (points \<noteq> [] \<and> point_count \<le> int (length points))"
| "cmd_ok s (NK_COMMAND_POLYLINE color line_thickness point_count points) =
     (points \<noteq> [] \<and> point_count \<le> int (length points))"
| "cmd_ok s (NK_COMMAND_TEXT font background foreground x y w h height len string) =
     (font_ok s font \<and> 0 \<le> len \<and> len \<le> int (length string))"
| "cmd_ok s other = True"

text \<open>
  The unsupported command types, and the lines each command type writes to the diagnostic
  stream (lines 489-513).
\<close>

fun unsupported :: "nk_command \<Rightarrow> bool" where
  "unsupported (NK_COMMAND_CURVE line_thickness p_begin p_end ctrl0 ctrl1 color) = True"
| "unsupported (NK_COMMAND_RECT_MULTI_COLOR x y w h c_left c_top c_bottom c_right) = True"
| "unsupported other = False"

fun diagnostic :: "nk_command \<Rightarrow> string list" where
  "diagnostic (NK_COMMAND_CURVE line_thickness p_begin p_end ctrl0 ctrl1 color) =
     [''NK_COMMAND_CURVE not implemented\<newline>'']"
| "diagnostic (NK_COMMAND_RECT_MULTI_COLOR x y w h c_left c_top c_bottom c_right) =
     [''NK_COMMAND_RECT_MULTI_COLOR not implemented\<newline>'']"
| "diagnostic (NK_COMMAND_ARC cx cy r line_thickness a0 a1 color) = [''NK_COMMAND_ARC\<newline>'']"
| "diagnostic (NK_COMMAND_ARC_FILLED cx cy r a0 a1 color) = [''NK_COMMAND_ARC_FILLED\<newline>'']"
| "diagnostic other = []"

text \<open>The calls that change pixels of the target.\<close>

fun paints :: "cairo_op \<Rightarrow> bool" where
  "paints Stroke = True"
| "paints Fill = True"
| "paints Paint = True"
| "paints (Show_text utf8) = True"
| "paints other = False"


section \<open>Properties\<close>

subsection \<open>Auxiliary facts\<close>

lemmas cairo_call_defs =
  record_op_def cairo_set_source_rgba_def cairo_reset_clip_def cairo_new_path_def
  cairo_move_to_def cairo_line_to_def cairo_clip_def cairo_set_line_width_def cairo_stroke_def
  cairo_fill_def cairo_new_sub_path_def cairo_close_path_def cairo_arc_def cairo_rectangle_def
  cairo_get_matrix_def cairo_scale_def cairo_set_matrix_def cairo_set_source_surface_def
  cairo_paint_def cairo_surface_flush_def cairo_surface_destroy_def cairo_destroy_def
  cairo_set_font_face_def cairo_set_font_size_def cairo_font_extents_def
  cairo_text_extents_def cairo_show_text_def

text \<open>The loops are unfolded one iteration at a time, by hand.\<close>

declare line_to_pnts.simps [simp del]

declare find_face.simps [simp del]

declare find_font.simps [simp del]

lemma NK_MAX_max: "NK_MAX a b = max a b"
  by (simp add: NK_MAX_def max_def)

lemma line_to_pnts_in_range:
  "0 \<le> i \<Longrightarrow> count \<le> int (length pnts) \<Longrightarrow>
   line_to_pnts cairo pnts count i =
     Inr (cairo\<lparr>cr_ops := cr_ops cairo @
            map (\<lambda>p. Line_to (real_of_int (vec_x p)) (real_of_int (vec_y p)))
              (drop (nat i) (take (nat count) pnts))\<rparr>)"
proof (induction cairo pnts count i rule: line_to_pnts.induct)
  case (1 cairo pnts count i)
  show ?case
  proof (cases "i < count")
    case False
    then have "drop (nat i) (take (nat count) pnts) = []" by simp
    with False show ?thesis by (subst line_to_pnts.simps) simp
  next
    case True
    with "1.prems" have rd: "array_read pnts i = Inr (pnts ! nat i)"
      by (simp add: array_read_def)
    from True "1.prems" have len: "nat i < length (take (nat count) pnts)" by simp
    have dr: "drop (nat i) (take (nat count) pnts) =
        pnts ! nat i # drop (nat (i + 1)) (take (nat count) pnts)"
      using Cons_nth_drop_Suc [OF len] True "1.prems"
      by (simp add: nat_add_distrib)
    from "1.prems" have "0 \<le> i + 1" by simp
    from "1.IH" [OF True rd this "1.prems"(2)] show ?thesis
      by (subst line_to_pnts.simps) (simp add: True rd dr cairo_call_defs)
  qed
qed

subsection \<open>Text measurement\<close>

lemma text_width_value:
  assumes "0 \<le> len" and "len \<le> int (length text)"
    and "array_read (nk_cairo_fonts s) ptr = Inr cfont"
    and "array_read (nk_cairo_faces s) (fnt_face cfont) = Inr cface"
    and "nk_cairo s = Some scratch"
    and "extents = text_extents e (fc_ca cface) (real_of_int (fnt_size cfont))
                     (take (nat len) text @ [CHR 0x00])"
  shows "\<exists>s'. nk_cairo_text_width e s (Some ptr) h text len =
           Inr (s', max (te_width extents + te_x_bearing extents) (te_x_advance extents))"
  using assms
  by (simp add: nk_cairo_text_width_def terminated_copy_def NK_MAX_max cairo_call_defs Let_def)

text \<open>
  Claim C2. For a font handle that designates an entry of the sized-font table and a span
  of \<open>len\<close> bytes, the text-measurement callback returns the larger of (ink width + left
  bearing) and the advance width, taken from the extents the drawing library reports for
  the NUL-terminated copy of the span under the face and the size stored in the handle's
  entry.
\<close>

theorem text_width_is_max_of_ink_and_advance:
  assumes "0 \<le> len" and "len \<le> int (length text)"
    and "array_read (nk_cairo_fonts s) ptr = Inr cfont"
    and "array_read (nk_cairo_faces s) (fnt_face cfont) = Inr cface"
    and "nk_cairo s = Some scratch"
    and "extents = text_extents e (fc_ca cface) (real_of_int (fnt_size cfont))
                     (take (nat len) text @ [CHR 0x00])"
  shows "\<exists>s'. nk_cairo_text_width e s (Some ptr) h text len =
           Inr (s', max (te_width extents + te_x_bearing extents) (te_x_advance extents))"
  using assms by (rule text_width_value)

theorem text_width_is_max_witness:
  "\<exists>s'. nk_cairo_text_width example_env example_state (Some 0) 12 ''hello'' 5 = Inr (s', 61)"
proof -
  define cfont where "cfont = nk_cairo_fonts example_state ! 0"
  define cface where "cface = nk_cairo_faces example_state ! 0"
  have f: "array_read (nk_cairo_fonts example_state) 0 = Inr cfont"
    unfolding cfont_def by code_simp
  have fc: "fnt_face cfont = 0" "fnt_size cfont = 24"
    unfolding cfont_def by code_simp+
  have c: "array_read (nk_cairo_faces example_state) (fnt_face cfont) = Inr cface"
    unfolding fc cface_def by code_simp
  have "nk_cairo example_state \<noteq> None" by code_simp
  then obtain scratch where n: "nk_cairo example_state = Some scratch" by auto
  have "0 \<le> (5::int)" and "(5::int) \<le> int (length ''hello'')" by simp_all
  from text_width_is_max_of_ink_and_advance [OF this f c n refl, of example_env 12]
  show ?thesis by (simp add: fc example_env_def)
qed

text \<open>
  Claim C10. The result of the text-measurement callback (the width, the state it leaves,
  or the failure) does not depend on its height argument.
\<close>

theorem text_width_independent_of_height:
  "nk_cairo_text_width e s handle h text len = nk_cairo_text_width e s handle h' text len"
  by (simp add: nk_cairo_text_width_def)

subsection \<open>Rectangles\<close>

text \<open>
  Claim C5. The render pass hands a rectangle command to \<^verbatim>\<open>nk_cairo_stroke_rect\<close> and
  a filled-rectangle command to \<^verbatim>\<open>nk_cairo_fill_rect\<close>, with its rounding \<open>r\<close>. With
  \<open>r = 0\<close> the calls made are the colour (and line width), exactly the axis-aligned
  rectangle \<open>(x, y, w, h)\<close>, and the stroke or fill; with \<open>r > 0\<close> they are one
  sub-path of four arcs of radius \<open>r\<close>, each sweeping 90 degrees (top-right from -90 to
  0, bottom-right from 0 to 90, bottom-left from 90 to 180, top-left from 180 to 270, in
  units of \<open>NK_PI / 180\<close>), which is closed and then stroked or filled. The straight
  edges are the segments Cairo adds from the current point to the start of each arc.
\<close>

theorem rect_path_square_or_rounded:
  "(\<exists>c. render_command e s (NK_COMMAND_RECT r line_thickness x y w h col) (cairo, out) =
          Inr (c, out) \<and>
        (r = 0 \<longrightarrow>
           cr_ops c =
             cr_ops (nk_cairo_set_color cairo col) @
             [Set_line_width (real_of_int line_thickness),
              Rectangle (real_of_int x) (real_of_int y) (real_of_int w) (real_of_int h),
              Stroke]) \<and>
        (0 < r \<longrightarrow>
           cr_ops c =
             cr_ops (nk_cairo_set_color cairo col) @
             [Set_line_width (real_of_int line_thickness), New_sub_path,
              Arc (real_of_int (x + w - r)) (real_of_int (y + r)) (real_of_int r)
                (- 90 * (NK_PI / 180)) (0 * (NK_PI / 180)),
              Arc (real_of_int (x + w - r)) (real_of_int (y + h - r)) (real_of_int r)
                (0 * (NK_PI / 180)) (90 * (NK_PI / 180)),
              Arc (real_of_int (x + r)) (real_of_int (y + h - r)) (real_of_int r)
                (90 * (NK_PI / 180)) (180 * (NK_PI / 180)),
              Arc (real_of_int (x + r)) (real_of_int (y + r)) (real_of_int r)
                (180 * (NK_PI / 180)) (270 * (NK_PI / 180)),
              Close_path, Stroke])) \<and>
   (\<exists>c. render_command e s (NK_COMMAND_RECT_FILLED r x y w h col) (cairo, out) =
          Inr (c, out) \<and>
        (r = 0 \<longrightarrow>
           cr_ops c =
             cr_ops (nk_cairo_set_color cairo col) @
             [Rectangle (real_of_int x) (real_of_int y) (real_of_int w) (real_of_int h), Fill]) \<and>
        (0 < r \<longrightarrow>
           cr_ops c =
             cr_ops (nk_cairo_set_color cairo col) @
             [New_sub_path,
              Arc (real_of_int (x + w - r)) (real_of_int (y + r)) (real_of_int r)
                (- 90 * (NK_PI / 180)) (0 * (NK_PI / 180)),
              Arc (real_of_int (x + w - r)) (real_of_int (y + h - r)) (real_of_int r)
                (0 * (NK_PI / 180)) (90 * (NK_PI / 180)),
              Arc (real_of_int (x + r)) (real_of_int (y + h - r)) (real_of_int r)
                (90 * (NK_PI / 180)) (180 * (NK_PI / 180)),
              Arc (real_of_int (x + r)) (real_of_int (y + r)) (real_of_int r)
                (180 * (NK_PI / 180)) (270 * (NK_PI / 180)),
              Close_path, Fill]))"
  by (simp add: nk_cairo_stroke_rect_def nk_cairo_fill_rect_def nk_cairo_set_color_def
      cairo_call_defs Let_def)

theorem rect_path_witness:
  "map_sum id (cr_ops \<circ> fst)
     (render_command example_env example_state (NK_COMMAND_RECT 0 2 10 20 100 50 example_color)
        (example_cairo, [])) =
     Inr [Set_source_rgba 0 0 0 1, Set_line_width 2, Rectangle 10 20 100 50, Stroke] \<and>
   map_sum id (cr_ops \<circ> fst)
     (render_command example_env example_state (NK_COMMAND_RECT_FILLED 4 10 20 100 50 example_color)
        (example_cairo, [])) =
     Inr [Set_source_rgba 0 0 0 1, New_sub_path,
          Arc 106 24 4 (- 90 * (NK_PI / 180)) 0,
          Arc 106 66 4 0 (90 * (NK_PI / 180)),
          Arc 14 66 4 (90 * (NK_PI / 180)) (180 * (NK_PI / 180)),
          Arc 14 24 4 (180 * (NK_PI / 180)) (270 * (NK_PI / 180)),
          Close_path, Fill]"
proof -
  have col: "cr_ops (nk_cairo_set_color example_cairo example_color) = [Set_source_rgba 0 0 0 1]"
    by (simp add: example_cairo_def example_color_def nk_cairo_set_color_def cairo_create_def
        cairo_call_defs)
  from rect_path_square_or_rounded
    [of example_env example_state 0 2 10 20 100 50 example_color example_cairo "[]"]
  obtain c where
    "render_command example_env example_state (NK_COMMAND_RECT 0 2 10 20 100 50 example_color)
       (example_cairo, []) = Inr (c, [])"
    "cr_ops c = cr_ops (nk_cairo_set_color example_cairo example_color) @
       [Set_line_width 2, Rectangle 10 20 100 50, Stroke]"
    by auto
  moreover from rect_path_square_or_rounded
    [of example_env example_state 4 2 10 20 100 50 example_color example_cairo "[]"]
  obtain c' where
    "render_command example_env example_state
       (NK_COMMAND_RECT_FILLED 4 10 20 100 50 example_color) (example_cairo, []) = Inr (c', [])"
    "cr_ops c' = cr_ops (nk_cairo_set_color example_cairo example_color) @
       [New_sub_path,
        Arc 106 24 4 (- 90 * (NK_PI / 180)) 0,
        Arc 106 66 4 0 (90 * (NK_PI / 180)),
        Arc 14 66 4 (90 * (NK_PI / 180)) (180 * (NK_PI / 180)),
        Arc 14 24 4 (180 * (NK_PI / 180)) (270 * (NK_PI / 180)),
        Close_path, Fill]"
    by auto
  ultimately show ?thesis by (simp add: col)
qed

subsection \<open>Circles\<close>

text \<open>
  Claim C6, as stated, fails: for the bounding box \<open>(0, 0, 10, 4)\<close> the filled circle
  has radius 2 and centre \<open>(2, 2)\<close>, while the centre of the box is \<open>(5, 2)\<close>.
\<close>

theorem circle_not_centred_counterexample:
  "map_sum id (cr_ops \<circ> fst)
     (render_command example_env example_state (NK_COMMAND_CIRCLE_FILLED 0 0 10 4 example_color)
        (example_cairo, [])) =
     Inr [Set_source_rgba 0 0 0 1, New_sub_path, Arc 2 2 2 0 (2 * NK_PI), Close_path, Fill] \<and>
   (2, 2) \<noteq> box_centre 0 0 10 4"
  by (simp add: nk_cairo_fill_circle_def nk_cairo_set_color_def cairo_call_defs Let_def
      example_cairo_def example_color_def cairo_create_def box_centre_def)

text \<open>
  Claim C6, amended. With \<open>r = min w h / 2\<close> in C's integer division, a circle command
  draws the full circle of radius \<open>r\<close> about \<open>(x + r, y + r)\<close>. For a box of
  non-negative sides whose smaller side is even, \<open>r\<close> is exactly half the smaller side
  and the centre is the centre of the square of that side at the top-left corner of the
  box (the box itself when \<open>w = h\<close>).
\<close>

theorem circle_radius_and_centre:
  "render_command e s (NK_COMMAND_CIRCLE x y line_thickness w h col) (cairo, out) =
     Inr (nk_cairo_stroke_circle cairo (x + min w h sdiv 2) (y + min w h sdiv 2) (min w h sdiv 2)
            line_thickness col, out) \<and>
   render_command e s (NK_COMMAND_CIRCLE_FILLED x y w h col) (cairo, out) =
     Inr (nk_cairo_fill_circle cairo (x + min w h sdiv 2) (y + min w h sdiv 2) (min w h sdiv 2)
            col, out) \<and>
   cr_ops (nk_cairo_stroke_circle cairo cx cy r line_thickness col) =
     cr_ops (nk_cairo_set_color cairo col) @
     [Set_line_width (real_of_int line_thickness), New_sub_path,
      Arc (real_of_int cx) (real_of_int cy) (real_of_int r) 0 (2 * NK_PI), Close_path, Stroke] \<and>
   cr_ops (nk_cairo_fill_circle cairo cx cy r col) =
     cr_ops (nk_cairo_set_color cairo col) @
     [New_sub_path, Arc (real_of_int cx) (real_of_int cy) (real_of_int r) 0 (2 * NK_PI),
      Close_path, Fill] \<and>
   (0 \<le> w \<and> 0 \<le> h \<and> even (min w h) \<longrightarrow>
      real_of_int (min w h sdiv 2) = real_of_int (min w h) / 2 \<and>
      (real_of_int (x + min w h sdiv 2), real_of_int (y + min w h sdiv 2)) =
        box_centre x y (min w h) (min w h))"
proof -
  have m: "(if w < h then w else h) = min w h" by (simp add: min_def)
  have "real_of_int (k sdiv 2) = real_of_int k / 2" if "0 \<le> k" "even k" for k :: int
  proof -
    from that(1) have "k sdiv 2 = k div 2"
      by (cases "k = 0") (simp_all add: signed_divide_int_def)
    with that(2) show ?thesis by (auto elim!: evenE)
  qed
  then show ?thesis
    by (simp add: m nk_cairo_stroke_circle_def nk_cairo_fill_circle_def nk_cairo_set_color_def
        cairo_call_defs Let_def box_centre_def)
qed

theorem circle_radius_and_centre_witness:
  "real_of_int (min 10 10 sdiv 2) = 5 \<and>
   (real_of_int (3 + min 10 10 sdiv 2), real_of_int (7 + min 10 10 sdiv 2)) = box_centre 3 7 10 10 \<and>
   render_command example_env example_state (NK_COMMAND_CIRCLE_FILLED 3 7 10 10 example_color)
     (example_cairo, []) = Inr (nk_cairo_fill_circle example_cairo 8 12 5 example_color, [])"
  using circle_radius_and_centre [of example_env example_state 3 7 1 10 10 example_color
      example_cairo "[]" 0 0 0]
  by simp

subsection \<open>Point sequences\<close>

text \<open>
  The calls of the point-sequence functions on points that are there. The polygon and
  triangle functions draw a line back to the first point and close the path; the polyline
  function leaves the line out and closes the path all the same.
\<close>

lemma polyline_calls:
  assumes "pnts \<noteq> []" and "count \<le> int (length pnts)"
  shows "\<exists>c. nk_cairo_stroke_polyline cairo pnts count line_thickness col = Inr c \<and>
           cr_ops c =
             cr_ops (nk_cairo_set_color cairo col) @
             [Set_line_width (real_of_int line_thickness), New_sub_path,
              Move_to (real_of_int (vec_x (hd pnts))) (real_of_int (vec_y (hd pnts)))] @
             map (\<lambda>p. Line_to (real_of_int (vec_x p)) (real_of_int (vec_y p)))
               (drop 1 (take (nat count) pnts)) @
             [Close_path, Stroke]"
  using assms
  by (simp add: nk_cairo_stroke_polyline_def Let_def array_read_def line_to_pnts_in_range
      nk_cairo_set_color_def cairo_call_defs hd_conv_nth)

lemma polygon_calls:
  assumes "pnts \<noteq> []" and "count \<le> int (length pnts)"
  shows "\<exists>c. nk_cairo_stroke_polygon cairo pnts count line_thickness col = Inr c \<and>
           cr_ops c =
             cr_ops (nk_cairo_set_color cairo col) @
             [Set_line_width (real_of_int line_thickness), New_sub_path,
              Move_to (real_of_int (vec_x (hd pnts))) (real_of_int (vec_y (hd pnts)))] @
             map (\<lambda>p. Line_to (real_of_int (vec_x p)) (real_of_int (vec_y p)))
               (drop 1 (take (nat count) pnts)) @
             [Line_to (real_of_int (vec_x (hd pnts))) (real_of_int (vec_y (hd pnts))),
              Close_path, Stroke]"
    and "\<exists>c. nk_cairo_fill_polygon cairo pnts count col = Inr c \<and>
           cr_ops c =
             cr_ops (nk_cairo_set_color cairo col) @
             [New_sub_path,
              Move_to (real_of_int (vec_x (hd pnts))) (real_of_int (vec_y (hd pnts)))] @
             map (\<lambda>p. Line_to (real_of_int (vec_x p)) (real_of_int (vec_y p)))
               (drop 1 (take (nat count) pnts)) @
             [Line_to (real_of_int (vec_x (hd pnts))) (real_of_int (vec_y (hd pnts))),
              Close_path, Fill]"
  using assms
  by (simp_all add: nk_cairo_stroke_polygon_def nk_cairo_fill_polygon_def Let_def array_read_def
      line_to_pnts_in_range nk_cairo_set_color_def cairo_call_defs hd_conv_nth)

lemma triangle_calls:
  "cr_ops (nk_cairo_stroke_triangle cairo x0 y0 x1 y1 x2 y2 line_thickness col) =
     cr_ops (nk_cairo_set_color cairo col) @
     [Set_line_width (real_of_int line_thickness), New_sub_path,
      Move_to (real_of_int x0) (real_of_int y0), Line_to (real_of_int x1) (real_of_int y1),
      Line_to (real_of_int x2) (real_of_int y2), Line_to (real_of_int x0) (real_of_int y0),
      Close_path, Stroke]"
  "cr_ops (nk_cairo_fill_triangle cairo x0 y0 x1 y1 x2 y2 col) =
     cr_ops (nk_cairo_set_color cairo col) @
     [New_sub_path,
      Move_to (real_of_int x0) (real_of_int y0), Line_to (real_of_int x1) (real_of_int y1),
      Line_to (real_of_int x2) (real_of_int y2), Line_to (real_of_int x0) (real_of_int y0),
      Close_path, Fill]"
  by (simp_all add: nk_cairo_stroke_triangle_def nk_cairo_fill_triangle_def Let_def
      nk_cairo_set_color_def cairo_call_defs)

text \<open>
  Claim C3 (the code departs from it). \<^verbatim>\<open>nk_cairo_stroke_polyline\<close> leaves out the
  \<^verbatim>\<open>cairo_line_to\<close> back to the first point that the polygon functions make, but it
  still calls \<^verbatim>\<open>cairo_close_path\<close> before \<^verbatim>\<open>cairo_stroke\<close>: for the three points
  \<open>(0,0)\<close>, \<open>(10,0)\<close>, \<open>(10,10)\<close> the stroked path has the closing segment from
  \<open>(10,10)\<close> back to \<open>(0,0)\<close>.
\<close>

theorem polyline_is_closed_example:
  "map_sum id cr_ops
     (nk_cairo_stroke_polyline example_cairo
        [\<lparr>vec_x = 0, vec_y = 0\<rparr>, \<lparr>vec_x = 10, vec_y = 0\<rparr>, \<lparr>vec_x = 10, vec_y = 10\<rparr>]
        3 1 example_color) =
     Inr [Set_source_rgba 0 0 0 1, Set_line_width 1, New_sub_path,
          Move_to 0 0, Line_to 10 0, Line_to 10 10, Close_path, Stroke] \<and>
   stroked_segments
     [Set_source_rgba 0 0 0 1, Set_line_width 1, New_sub_path,
      Move_to 0 0, Line_to 10 0, Line_to 10 10, Close_path, Stroke] None None [] =
     [((0, 0), (10, 0)), ((10, 0), (10, 10)), ((10, 10), (0, 0))]"
  by (simp add: nk_cairo_stroke_polyline_def line_to_pnts_in_range array_read_def
      nk_cairo_set_color_def cairo_call_defs Let_def example_cairo_def example_color_def
      cairo_create_def)

subsection \<open>Images\<close>

text \<open>
  Claim C9, as stated, fails: for an image command with destination width 0 the scale
  factor is 0, which has no inverse; the header divides by it and sets the source at the
  horizontal position \<open>+\<infinity>\<close>, so the corner of the image lands nowhere, and not on
  \<open>(30, 40)\<close>.
\<close>

theorem image_zero_width_counterexample:
  "map_sum id (cr_ops \<circ> fst)
     (render_command example_env example_state
        (NK_COMMAND_IMAGE 30 40 0 50 \<lparr>img_handle = 7, img_w = 100, img_h = 100\<rparr> example_color)
        (example_cairo, [])) =
     Inr [Scale (Finite 0) (Finite (1 / 2)),
          Set_source_surface (cairo_image_surface_create_for_data 7 100 100 400)
            Pos_inf (Finite 80),
          Paint,
          Surface_destroy (cairo_image_surface_create_for_data 7 100 100 400),
          Set_matrix identity_matrix] \<and>
   source_origin (cr_matrix (cairo_scale example_cairo (Finite 0) (Finite (1 / 2))))
     Pos_inf (Finite 80) \<noteq> Some (30, 40)"
  by (simp add: nk_cairo_drawimage_def cairo_call_defs Let_def example_cairo_def
      cairo_create_def source_origin_def)

text \<open>
  Claim C9, amended. For an image command with a source image of native size
  \<open>(img_w, img_h)\<close> and the destination rectangle \<open>(x, y, w, h)\<close>, all four sizes
  non-zero, the render pass scales the context by \<open>w / img_w\<close> and \<open>h / img_h\<close>,
  sets the image as source at \<open>(x / (w / img_w), y / (h / img_h))\<close> and paints; under
  the scaled transformation that origin lands where the prior transformation sends
  \<open>(x, y)\<close> (the pixel \<open>(x, y)\<close> itself under the identity, which the context of a
  render pass keeps: \<open>render_pass_matrix_is_identity\<close>); and the transformation of the
  context afterwards is the prior one.
\<close>

theorem drawimage_scales_and_restores:
  assumes "w \<noteq> 0" and "h \<noteq> 0" and "img_w img \<noteq> 0" and "img_h img \<noteq> 0"
  shows
    "\<exists>c. render_command e s (NK_COMMAND_IMAGE x y w h img col) (cairo, out) = Inr (c, out) \<and>
       cr_ops c =
         cr_ops cairo @
         [Scale (Finite (real_of_int w / real_of_int (img_w img)))
            (Finite (real_of_int h / real_of_int (img_h img))),
          Set_source_surface
            (cairo_image_surface_create_for_data (img_handle img) (img_w img) (img_h img)
               (img_w img * 4))
            (Finite (real_of_int x / (real_of_int w / real_of_int (img_w img))))
            (Finite (real_of_int y / (real_of_int h / real_of_int (img_h img)))),
          Paint,
          Surface_destroy
            (cairo_image_surface_create_for_data (img_handle img) (img_w img) (img_h img)
               (img_w img * 4)),
          Set_matrix (cr_matrix cairo)] \<and>
       source_origin
         (cr_matrix (cairo_scale cairo (Finite (real_of_int w / real_of_int (img_w img)))
                       (Finite (real_of_int h / real_of_int (img_h img)))))
         (Finite (real_of_int x / (real_of_int w / real_of_int (img_w img))))
         (Finite (real_of_int y / (real_of_int h / real_of_int (img_h img)))) =
         Some (cairo_user_to_device (cr_matrix cairo) (real_of_int x, real_of_int y)) \<and>
       cairo_user_to_device identity_matrix (real_of_int x, real_of_int y) =
         (real_of_int x, real_of_int y) \<and>
       cr_matrix c = cr_matrix cairo"
  using assms
  by (simp add: nk_cairo_drawimage_def cairo_call_defs Let_def cairo_user_to_device_def
      identity_matrix_def source_origin_def)

theorem drawimage_witness:
  "map_sum id (cr_ops \<circ> fst)
     (render_command example_env example_state
        (NK_COMMAND_IMAGE 30 40 200 50 \<lparr>img_handle = 7, img_w = 100, img_h = 100\<rparr> example_color)
        (example_cairo, [])) =
     Inr [Scale (Finite 2) (Finite (1 / 2)),
          Set_source_surface (cairo_image_surface_create_for_data 7 100 100 400)
            (Finite 15) (Finite 80),
          Paint,
          Surface_destroy (cairo_image_surface_create_for_data 7 100 100 400),
          Set_matrix identity_matrix] \<and>
   source_origin (cr_matrix (cairo_scale example_cairo (Finite 2) (Finite (1 / 2))))
     (Finite 15) (Finite 80) = Some (30, 40)"
proof -
  have "(200::int) \<noteq> 0" "(50::int) \<noteq> 0"
    "img_w \<lparr>img_handle = 7, img_w = 100, img_h = 100\<rparr> \<noteq> 0"
    "img_h \<lparr>img_handle = 7, img_w = 100, img_h = 100\<rparr> \<noteq> 0"
    by simp_all
  from drawimage_scales_and_restores [OF this,
      of example_env example_state 30 40 example_color example_cairo "[]"]
  obtain c where
    "render_command example_env example_state
       (NK_COMMAND_IMAGE 30 40 200 50 \<lparr>img_handle = 7, img_w = 100, img_h = 100\<rparr> example_color)
       (example_cairo, []) = Inr (c, [])"
    "cr_ops c = cr_ops example_cairo @
       [Scale (Finite 2) (Finite (1 / 2)),
        Set_source_surface (cairo_image_surface_create_for_data 7 100 100 400)
          (Finite 15) (Finite 80),
        Paint,
        Surface_destroy (cairo_image_surface_create_for_data 7 100 100 400),
        Set_matrix (cr_matrix example_cairo)]"
    "source_origin (cr_matrix (cairo_scale example_cairo (Finite 2) (Finite (1 / 2))))
       (Finite 15) (Finite 80) =
       Some (cairo_user_to_device (cr_matrix example_cairo) (30, 40))"
    by auto
  then show ?thesis
    by (simp add: example_cairo_def cairo_create_def cairo_user_to_device_def
        identity_matrix_def)
qed

subsection \<open>The font tables\<close>

text \<open>What the search loops return, and what they return after an entry is appended.\<close>

lemma find_face_range:
  "find_face mem faces n ttf i = Inr r \<Longrightarrow> 0 \<le> i \<Longrightarrow> r = - 1 \<or> (i \<le> r \<and> r < n)"
proof (induction mem faces n ttf i rule: find_face.induct)
  case (1 mem faces n ttf i)
  from "1.prems"(1) show ?case
    apply (subst (asm) find_face.simps)
    apply (auto split: if_splits sum.splits option.splits)
    using "1.IH" "1.prems"(2) apply fastforce+
    done
qed


lemma find_font_range:
  "find_font fonts n face sz i = Inr r \<Longrightarrow> 0 \<le> i \<Longrightarrow> r = - 1 \<or> (i \<le> r \<and> r < n)"
proof (induction fonts n face sz i rule: find_font.induct)
  case (1 fonts n face sz i)
  from "1.prems"(1) show ?case
    apply (subst (asm) find_font.simps)
    apply (auto split: if_splits sum.splits)
    using "1.IH" "1.prems"(2) apply fastforce+
    done
qed


lemma ttf_face_found:
  "find_face mem (nk_cairo_faces s) (nk_cairo_face s) ttf 0 = Inr r \<Longrightarrow> \<not> r < 0 \<Longrightarrow>
   ttf_face e mem s ttf = Inr (s, r)"
  by (simp add: ttf_face_def)

lemma ttf_face_new:
  "find_face mem (nk_cairo_faces s) (nk_cairo_face s) ttf 0 = Inr r \<Longrightarrow> r < 0 \<Longrightarrow>
   ttf_face e mem s ttf =
     (if \<not> nk_cairo_face s < MAXFONTS then Inl Assert_face_lt_MAXFONTS
      else
        (case array_read (nk_cairo_faces s) (nk_cairo_face s) of
           Inl err \<Rightarrow> Inl err
         | Inr entry \<Rightarrow>
             (case snd (FT_New_Face e (nk_cairo_ft s) (mem ttf)) of
                None \<Rightarrow> Inl Assert_FT_New_Face
              | Some ft \<Rightarrow>
                  Inr (s\<lparr>nk_cairo_face := nk_cairo_face s + 1,
                         nk_cairo_ft := fst (FT_New_Face e (nk_cairo_ft s) (mem ttf)),
                         nk_cairo_faces := (nk_cairo_faces s)[nat (nk_cairo_face s) :=
                           entry\<lparr>fc_ttf := Some ttf, fc_ft := Some ft,
                             fc_ca := Some (cairo_ft_font_face_create_for_ft_face ft)\<rparr>]\<rparr>,
                       nk_cairo_face s))))"
  by (simp add: ttf_face_def Let_def array_read_def array_write_def
      split: prod.split option.split)

lemma ttf_font_found:
  "find_font (nk_cairo_fonts s) (nk_cairo_font s) face ttf_size 0 = Inr r \<Longrightarrow> \<not> r < 0 \<Longrightarrow>
   ttf_font e s face ttf_size = Inr (s, r)"
  by (simp add: ttf_font_def)

lemma ttf_font_new:
  "find_font (nk_cairo_fonts s) (nk_cairo_font s) face ttf_size 0 = Inr r \<Longrightarrow> r < 0 \<Longrightarrow>
   ttf_font e s face ttf_size =
     (if \<not> nk_cairo_font s < MAXFONTS then Inl Assert_font_lt_MAXFONTS
      else
        (case array_read (nk_cairo_faces s) face of
           Inl err \<Rightarrow> Inl err
         | Inr cface \<Rightarrow>
             (case nk_cairo s of
                None \<Rightarrow> Inl Undefined_Behaviour
              | Some scratch \<Rightarrow>
                  (if 0 \<le> nk_cairo_font s \<and> nk_cairo_font s < int (length (nk_cairo_fonts s))
                   then
                     Inr (s\<lparr>nk_cairo_font := nk_cairo_font s + 1,
                            nk_cairo_fonts := (nk_cairo_fonts s)[nat (nk_cairo_font s) :=
                              \<lparr>fnt_font =
                                 \<lparr>uf_userdata = Some (nk_cairo_font s),
                                  uf_height = fe_height (font_extents e (fc_ca cface)
                                                (real_of_int ttf_size)),
                                  uf_width = Some Nk_cairo_text_width\<rparr>,
                               fnt_face = face, fnt_size = ttf_size\<rparr>],
                            nk_cairo := Some (cairo_set_font_size
                              (cairo_set_font_face scratch (fc_ca cface))
                              (real_of_int ttf_size))\<rparr>,
                          nk_cairo_font s)
                   else Inl Undefined_Behaviour))))"
  by (simp add: ttf_font_def Let_def array_write_def cairo_font_extents_def
      cairo_set_font_size_def cairo_set_font_face_def record_op_def
      split: sum.split option.split; blast)












text \<open>The loops do not leave the tables, and the invariant is kept.\<close>

lemma find_face_total:
  "0 \<le> i \<Longrightarrow> n \<le> int (length faces) \<Longrightarrow>
   list_all (\<lambda>entry. fc_ttf entry \<noteq> None) (take (nat n) faces) \<Longrightarrow>
   \<exists>r. find_face mem faces n ttf i = Inr r"
proof (induction mem faces n ttf i rule: find_face.induct)
  case (1 mem faces n ttf i)
  show ?case
  proof (cases "i < n")
    case False
    then show ?thesis by (subst find_face.simps) simp
  next
    case True
    with "1.prems" have rd: "array_read faces i = Inr (faces ! nat i)"
      by (simp add: array_read_def)
    from True "1.prems" have "nat i < length (take (nat n) faces)" by simp
    with "1.prems"(3) have "fc_ttf (take (nat n) faces ! nat i) \<noteq> None"
      by (simp add: list_all_length)
    with True "1.prems" obtain known where kn: "fc_ttf (faces ! nat i) = Some known"
      by auto
    show ?thesis
    proof (cases "mem ttf = mem known")
      case True
      with \<open>i < n\<close> rd kn show ?thesis by (subst find_face.simps) simp
    next
      case False
      from "1.prems" have "0 \<le> i + 1" by simp
      from "1.IH" [OF \<open>i < n\<close> rd kn False this "1.prems"(2,3)] \<open>i < n\<close> rd kn False
      show ?thesis by (subst find_face.simps) simp
    qed
  qed
qed

lemma find_font_total:
  "0 \<le> i \<Longrightarrow> n \<le> int (length fonts) \<Longrightarrow> \<exists>r. find_font fonts n face sz i = Inr r"
proof (induction fonts n face sz i rule: find_font.induct)
  case (1 fonts n face sz i)
  show ?case
  proof (cases "i < n")
    case False
    then show ?thesis by (subst find_font.simps) simp
  next
    case True
    with "1.prems" have rd: "array_read fonts i = Inr (fonts ! nat i)"
      by (simp add: array_read_def)
    show ?thesis
    proof (cases "fnt_face (fonts ! nat i) = face \<and> fnt_size (fonts ! nat i) = sz")
      case True
      with \<open>i < n\<close> rd show ?thesis by (subst find_font.simps) simp
    next
      case False
      from "1.prems" have "0 \<le> i + 1" by simp
      from "1.IH" [OF \<open>i < n\<close> rd False this "1.prems"(2)] \<open>i < n\<close> rd False
      show ?thesis by (subst find_font.simps) auto
    qed
  qed
qed

lemma take_Suc_update:
  "k < length xs \<Longrightarrow> take (Suc k) (xs[k := v]) = take k xs @ [v]"
  by (simp add: take_Suc_conv_app_nth)

lemma ttf_face_ok:
  assumes "tables_ok s"
  shows "case ttf_face e mem s ttf of
           Inl err \<Rightarrow> err = Assert_face_lt_MAXFONTS \<or> err = Assert_FT_New_Face
         | Inr (s1, face) \<Rightarrow> tables_ok s1 \<and> 0 \<le> face \<and> face < nk_cairo_face s1"
proof -
  from assms have inv:
    "0 \<le> nk_cairo_face s" "nk_cairo_face s \<le> MAXFONTS"
    "int (length (nk_cairo_faces s)) = MAXFONTS"
    "list_all (\<lambda>entry. fc_ttf entry \<noteq> None) (take (nat (nk_cairo_face s)) (nk_cairo_faces s))"
    by (simp_all add: tables_ok_def)
  from find_face_total [of 0 "nk_cairo_face s" "nk_cairo_faces s" mem ttf] inv
  obtain r where r: "find_face mem (nk_cairo_faces s) (nk_cairo_face s) ttf 0 = Inr r" by auto
  show ?thesis
  proof (cases "r < 0")
    case False
    with find_face_range [OF r] have "0 \<le> r" "r < nk_cairo_face s" by auto
    with assms False r show ?thesis by (simp add: ttf_face_found)
  next
    case True
    note new = ttf_face_new [OF r True, of e]
    show ?thesis
    proof (cases "nk_cairo_face s < MAXFONTS")
      case False
      with new show ?thesis by simp
    next
      case lt: True
      with inv have rd: "array_read (nk_cairo_faces s) (nk_cairo_face s) =
          Inr (nk_cairo_faces s ! nat (nk_cairo_face s))"
        by (simp add: array_read_def)
      show ?thesis
      proof (cases "snd (FT_New_Face e (nk_cairo_ft s) (mem ttf))")
        case None
        with new lt rd show ?thesis by simp
      next
        case (Some ft)
        from inv lt have k: "nat (nk_cairo_face s) < length (nk_cairo_faces s)" by simp
        from inv have suc: "nat (nk_cairo_face s + 1) = Suc (nat (nk_cairo_face s))" by simp
        from assms have fonts:
          "list_all (\<lambda>entry. 0 \<le> fnt_face entry \<and> fnt_face entry < nk_cairo_face s + 1)
             (take (nat (nk_cairo_font s)) (nk_cairo_fonts s))"
          by (auto simp add: tables_ok_def list_all_length)
        from assms inv lt fonts have "tables_ok
          (s\<lparr>nk_cairo_face := nk_cairo_face s + 1,
              nk_cairo_ft := fst (FT_New_Face e (nk_cairo_ft s) (mem ttf)),
              nk_cairo_faces := (nk_cairo_faces s)[nat (nk_cairo_face s) :=
                (nk_cairo_faces s ! nat (nk_cairo_face s))\<lparr>fc_ttf := Some ttf, fc_ft := Some ft,
                   fc_ca := Some (cairo_ft_font_face_create_for_ft_face ft)\<rparr>]\<rparr>)"
          by (simp add: tables_ok_def suc take_Suc_update [OF k])
        with new lt rd Some inv show ?thesis by simp
      qed
    qed
  qed
qed

lemma ttf_font_ok:
  assumes "tables_ok s" and "0 \<le> face" and "face < nk_cairo_face s"
  shows "case ttf_font e s face ttf_size of
           Inl err \<Rightarrow> err = Assert_font_lt_MAXFONTS
         | Inr (s2, font) \<Rightarrow> tables_ok s2 \<and> 0 \<le> font \<and> font < nk_cairo_font s2"
proof -
  from assms(1) have inv:
    "0 \<le> nk_cairo_font s" "nk_cairo_font s \<le> MAXFONTS"
    "int (length (nk_cairo_fonts s)) = MAXFONTS"
    "int (length (nk_cairo_faces s)) = MAXFONTS"
    "nk_cairo_face s \<le> MAXFONTS"
    by (simp_all add: tables_ok_def)
  from assms(1) obtain scratch where sc: "nk_cairo s = Some scratch"
    by (auto simp add: tables_ok_def)
  from find_font_total [of 0 "nk_cairo_font s" "nk_cairo_fonts s" face ttf_size] inv
  obtain r where r: "find_font (nk_cairo_fonts s) (nk_cairo_font s) face ttf_size 0 = Inr r"
    by auto
  show ?thesis
  proof (cases "r < 0")
    case False
    with find_font_range [OF r] have "0 \<le> r" "r < nk_cairo_font s" by auto
    with assms False r show ?thesis by (simp add: ttf_font_found)
  next
    case True
    note new = ttf_font_new [OF r True, of e]
    show ?thesis
    proof (cases "nk_cairo_font s < MAXFONTS")
      case False
      with new show ?thesis by simp
    next
      case lt: True
      from assms inv have rd: "array_read (nk_cairo_faces s) face =
          Inr (nk_cairo_faces s ! nat face)"
        by (simp add: array_read_def)
      from inv lt have k: "nat (nk_cairo_font s) < length (nk_cairo_fonts s)" by simp
      from inv have suc: "nat (nk_cairo_font s + 1) = Suc (nat (nk_cairo_font s))" by simp
      from assms inv lt have "tables_ok
        (s\<lparr>nk_cairo_font := nk_cairo_font s + 1,
            nk_cairo_fonts := (nk_cairo_fonts s)[nat (nk_cairo_font s) :=
              \<lparr>fnt_font =
                 \<lparr>uf_userdata = Some (nk_cairo_font s),
                  uf_height = fe_height (font_extents e
                                (fc_ca (nk_cairo_faces s ! nat face)) (real_of_int ttf_size)),
                  uf_width = Some Nk_cairo_text_width\<rparr>,
               fnt_face = face, fnt_size = ttf_size\<rparr>],
            nk_cairo := Some (cairo_set_font_size
              (cairo_set_font_face scratch (fc_ca (nk_cairo_faces s ! nat face)))
              (real_of_int ttf_size))\<rparr>)"
        by (simp add: tables_ok_def suc take_Suc_update [OF k])
      with new lt rd sc inv show ?thesis by simp
    qed
  qed
qed

lemma nk_cairo_ttf_ok:
  assumes "tables_ok s"
  shows "case nk_cairo_ttf e mem s ttf ttf_size of
           Inl err \<Rightarrow> err = Assert_face_lt_MAXFONTS \<or> err = Assert_FT_New_Face \<or>
                        err = Assert_font_lt_MAXFONTS
         | Inr (s', font) \<Rightarrow> tables_ok s' \<and> 0 \<le> font \<and> font < nk_cairo_font s'"
proof (cases "ttf_face e mem s ttf")
  case (Inl err)
  with ttf_face_ok [OF assms, of e mem ttf] show ?thesis by (auto simp add: nk_cairo_ttf_def)
next
  case (Inr p)
  obtain s1 face where p: "p = (s1, face)" by (cases p)
  from ttf_face_ok [OF assms, of e mem ttf] Inr p
  have "tables_ok s1" "0 \<le> face" "face < nk_cairo_face s1" by simp_all
  from ttf_font_ok [OF this, of e ttf_size] Inr p show ?thesis
    by (auto simp add: nk_cairo_ttf_def split: sum.splits)
qed

lemma ttf_calls_ok:
  "tables_ok s \<Longrightarrow>
   (case ttf_calls e s calls of
      Inl err \<Rightarrow> err = Assert_face_lt_MAXFONTS \<or> err = Assert_FT_New_Face \<or>
                   err = Assert_font_lt_MAXFONTS
    | Inr s' \<Rightarrow> tables_ok s')"
proof (induction calls arbitrary: s)
  case Nil
  then show ?case by simp
next
  case (Cons call calls)
  obtain mem ttf ttf_size where c: "call = (mem, ttf, ttf_size)" by (metis prod_cases3)
  show ?case
  proof (cases "nk_cairo_ttf e mem s ttf ttf_size")
    case (Inl err)
    with nk_cairo_ttf_ok [OF Cons.prems, of e mem ttf ttf_size] c show ?thesis by simp
  next
    case (Inr p)
    obtain s' font where p: "p = (s', font)" by (cases p)
    from nk_cairo_ttf_ok [OF Cons.prems, of e mem ttf ttf_size] Inr p have "tables_ok s'" by simp
    from Cons.IH [OF this] Inr p c show ?thesis by simp
  qed
qed

lemma nk_cairo_init_ok:
  "nk_cairo_init e program_start = Inr s0 \<Longrightarrow> tables_ok s0"
  by (auto simp add: nk_cairo_init_def program_start_def tables_ok_def MAXFONTS_def Let_def
      list_all_length split: if_splits)

lemma full_face_table_asserts:
  "find_face mem (nk_cairo_faces s) (nk_cairo_face s) ttf 0 = Inr (- 1) \<Longrightarrow>
   nk_cairo_face s = MAXFONTS \<Longrightarrow>
   nk_cairo_ttf e mem s ttf ttf_size = Inl Assert_face_lt_MAXFONTS"
  by (simp add: nk_cairo_ttf_def ttf_face_new)

lemma full_font_table_asserts:
  "ttf_face e mem s ttf = Inr (s1, face) \<Longrightarrow>
   find_font (nk_cairo_fonts s1) (nk_cairo_font s1) face ttf_size 0 = Inr (- 1) \<Longrightarrow>
   nk_cairo_font s1 = MAXFONTS \<Longrightarrow>
   nk_cairo_ttf e mem s ttf ttf_size = Inl Assert_font_lt_MAXFONTS"
  by (simp add: nk_cairo_ttf_def ttf_font_new)

lemma seventeenth_face_fails:
  "ttf_calls example_env example_init (map (\<lambda>k. (example_mem, k, 12)) [5..<22]) =
     Inl Assert_face_lt_MAXFONTS"
  by code_simp

lemma sixteen_faces_fit:
  "map_sum id (\<lambda>s. (nk_cairo_face s, nk_cairo_font s))
     (ttf_calls example_env example_init (map (\<lambda>k. (example_mem, k, 12)) [5..<21])) =
     Inr (16, 16)"
  by code_simp

lemma seventeenth_size_fails:
  "ttf_calls example_env example_init (map (\<lambda>k. (example_mem, 1, int k)) [1..<18]) =
     Inl Assert_font_lt_MAXFONTS"
  by code_simp

lemma missing_file_fails:
  "nk_cairo_ttf example_env example_mem example_init 3 12 = Inl Assert_FT_New_Face"
  by code_simp

text \<open>
  Claim C7. From the state \<^verbatim>\<open>nk_cairo_init\<close> leaves at program start, every sequence
  of \<^verbatim>\<open>nk_cairo_ttf\<close> calls either ends with both counts between 0 and 16 and both
  tables of length 16, or stops at a failed assertion; it never reads or writes outside
  a table. The memory may be different at each call. (A call that needs a seventeenth entry fails the capacity assertion:
  \<open>full_face_table_asserts\<close>, \<open>full_font_table_asserts\<close>.)
\<close>

theorem font_tables_within_capacity:
  assumes "nk_cairo_init e program_start = Inr s0"
  shows "case ttf_calls e s0 calls of
           Inl err \<Rightarrow> err = Assert_face_lt_MAXFONTS \<or> err = Assert_FT_New_Face \<or>
                        err = Assert_font_lt_MAXFONTS
         | Inr s \<Rightarrow>
             0 \<le> nk_cairo_face s \<and> nk_cairo_face s \<le> MAXFONTS \<and>
             0 \<le> nk_cairo_font s \<and> nk_cairo_font s \<le> MAXFONTS \<and>
             int (length (nk_cairo_faces s)) = MAXFONTS \<and>
             int (length (nk_cairo_fonts s)) = MAXFONTS"
  using ttf_calls_ok [OF nk_cairo_init_ok [OF assms], of e calls]
  by (auto simp add: tables_ok_def split: sum.splits)

theorem font_tables_within_capacity_witness:
  "nk_cairo_init example_env program_start = Inr example_init \<and>
   (case ttf_calls example_env example_init
           [(example_mem, 1, 24), (example_mem, 2, 24), (example_mem, 1, 12),
            (example_mem_overwritten, 4, 24)] of
      Inl err \<Rightarrow> False
    | Inr s \<Rightarrow> nk_cairo_face s = 3 \<and> nk_cairo_font s = 4 \<and>
        nk_cairo_face s \<le> MAXFONTS \<and> nk_cairo_font s \<le> MAXFONTS \<and>
        int (length (nk_cairo_faces s)) = MAXFONTS \<and> int (length (nk_cairo_fonts s)) = MAXFONTS)"
proof -
  have h: "nk_cairo_init example_env program_start = Inr example_init" by code_simp
  have ev: "map_sum id (\<lambda>s. (nk_cairo_face s, nk_cairo_font s))
      (ttf_calls example_env example_init
         [(example_mem, 1, 24), (example_mem, 2, 24), (example_mem, 1, 12),
          (example_mem_overwritten, 4, 24)]) =
      Inr (3, 4)"
    by code_simp
  from font_tables_within_capacity [OF h,
      of "[(example_mem, 1, 24), (example_mem, 2, 24), (example_mem, 1, 12),
           (example_mem_overwritten, 4, 24)]"] ev h
  show ?thesis by (auto split: sum.splits)
qed

text \<open>
  Under the invariant, every handle below the count of sized fonts can be measured: the
  hypotheses of Claim C2 hold for it.
\<close>

lemma issued_handle_is_measurable:
  assumes "tables_ok s" and "0 \<le> font" and "font < nk_cairo_font s"
    and "0 \<le> len" and "len \<le> int (length text)"
  shows "\<exists>s' width. nk_cairo_text_width e s (Some font) h text len = Inr (s', width)"
proof -
  from assms(1) have inv:
    "nk_cairo_font s \<le> int (length (nk_cairo_fonts s))"
    "nk_cairo_face s \<le> int (length (nk_cairo_faces s))"
    and fonts: "list_all (\<lambda>entry. 0 \<le> fnt_face entry \<and> fnt_face entry < nk_cairo_face s)
       (take (nat (nk_cairo_font s)) (nk_cairo_fonts s))"
    by (simp_all add: tables_ok_def)
  from assms(2,3) inv have k: "nat font < length (nk_cairo_fonts s)"
    "nat font < nat (nk_cairo_font s)" by arith+
  from assms(2) k have rd: "array_read (nk_cairo_fonts s) font = Inr (nk_cairo_fonts s ! nat font)"
    by (simp add: array_read_def)
  from k have "nat font < length (take (nat (nk_cairo_font s)) (nk_cairo_fonts s))" by simp
  with fonts have
    "0 \<le> fnt_face (take (nat (nk_cairo_font s)) (nk_cairo_fonts s) ! nat font) \<and>
     fnt_face (take (nat (nk_cairo_font s)) (nk_cairo_fonts s) ! nat font) < nk_cairo_face s"
    unfolding list_all_length by blast
  with k inv have fc: "0 \<le> fnt_face (nk_cairo_fonts s ! nat font)"
    "fnt_face (nk_cairo_fonts s ! nat font) < int (length (nk_cairo_faces s))"
    by simp_all
  then have rf: "array_read (nk_cairo_faces s) (fnt_face (nk_cairo_fonts s ! nat font)) =
      Inr (nk_cairo_faces s ! nat (fnt_face (nk_cairo_fonts s ! nat font)))"
    by (simp add: array_read_def)
  from assms(1) obtain scratch where sc: "nk_cairo s = Some scratch"
    by (auto simp add: tables_ok_def)
  from text_width_value [OF assms(4,5) rd rf sc refl, of e h]
  show ?thesis by blast
qed

subsection \<open>The render pass\<close>

text \<open>Well-formed commands are rendered; each adds its own diagnostic lines.\<close>

lemma polygon_ok:
  assumes "pnts \<noteq> []" and "count \<le> int (length pnts)"
  shows "\<exists>c. nk_cairo_stroke_polygon cairo pnts count line_thickness col = Inr c"
    and "\<exists>c. nk_cairo_fill_polygon cairo pnts count col = Inr c"
    and "\<exists>c. nk_cairo_stroke_polyline cairo pnts count line_thickness col = Inr c"
  using assms
  by (simp_all add: nk_cairo_stroke_polygon_def nk_cairo_fill_polygon_def
      nk_cairo_stroke_polyline_def Let_def array_read_def line_to_pnts_in_range)

lemma draw_text_ok:
  assumes "font_ok s font" and "0 \<le> len" and "len \<le> int (length text)"
  shows "\<exists>c. nk_cairo_draw_text e s cairo font rect text len font_height fg = Inr c"
proof -
  from assms(1) obtain user_font where
    a: "array_read (nk_cairo_fonts s) font = Inr user_font"
    by (cases "array_read (nk_cairo_fonts s) font") (simp_all add: font_ok_def)
  from assms(1) a obtain ptr where b: "uf_userdata (fnt_font user_font) = Some ptr"
    by (cases "uf_userdata (fnt_font user_font)") (simp_all add: font_ok_def)
  from assms(1) a b obtain cfont where c: "array_read (nk_cairo_fonts s) ptr = Inr cfont"
    by (cases "array_read (nk_cairo_fonts s) ptr") (simp_all add: font_ok_def)
  from assms(1) a b c obtain cface where
    d: "array_read (nk_cairo_faces s) (fnt_face cfont) = Inr cface"
    by (cases "array_read (nk_cairo_faces s) (fnt_face cfont)") (simp_all add: font_ok_def)
  note a b c d
  with assms(2,3) show ?thesis
    by (simp add: nk_cairo_draw_text_def terminated_copy_def Let_def)
qed

lemma render_command_ok:
  assumes "cmd_ok s cmd"
  shows "\<exists>c. render_command e s cmd (cairo, out) = Inr (c, out @ diagnostic cmd)"
proof (cases cmd)
  case (NK_COMMAND_POLYGON color line_thickness point_count points)
  with assms polygon_ok(1) [of points point_count cairo line_thickness color]
  show ?thesis by auto
next
  case (NK_COMMAND_POLYGON_FILLED color point_count points)
  with assms polygon_ok(2) [of points point_count cairo color]
  show ?thesis by auto
next
  case (NK_COMMAND_POLYLINE color line_thickness point_count points)
  with assms polygon_ok(3) [of points point_count cairo line_thickness color]
  show ?thesis by auto
next
  case (NK_COMMAND_TEXT font background foreground x y w h height len string)
  with assms draw_text_ok [of s font len string e cairo
      "nk_rect (real_of_int x) (real_of_int y) (real_of_int w) (real_of_int h)" height foreground]
  show ?thesis by auto
qed (simp_all add: fprintf_stderr_def Let_def)

lemma render_command_out:
  assumes "render_command e s cmd (cairo, out) = Inr (c, out')"
  shows "out' = out @ diagnostic cmd"
    and "render_command e s cmd (cairo, out2) = Inr (c, out2 @ diagnostic cmd)"
  using assms
  by (cases cmd; simp add: fprintf_stderr_def Let_def split: sum.splits; fail)+

lemma render_command_unsupported:
  "unsupported cmd \<Longrightarrow> render_command e s cmd (cairo, out) = Inr (cairo, out @ diagnostic cmd)"
  by (cases cmd) (simp_all add: fprintf_stderr_def)

lemma unsupported_one_line: "unsupported cmd \<Longrightarrow> length (diagnostic cmd) = 1"
  by (cases cmd) simp_all

lemma nk_foreach_ok:
  "\<forall>c\<in>set cmds. cmd_ok s c \<Longrightarrow>
   \<exists>c'. nk_foreach e s cmds (cairo, out) = Inr (c', out @ concat (map diagnostic cmds))"
proof (induction cmds arbitrary: cairo out)
  case Nil
  then show ?case by simp
next
  case (Cons cmd cmds)
  from Cons.prems have "cmd_ok s cmd" by simp
  from render_command_ok [OF this, of e cairo out] obtain c1 where
    c1: "render_command e s cmd (cairo, out) = Inr (c1, out @ diagnostic cmd)" ..
  from Cons.prems have "\<forall>c\<in>set cmds. cmd_ok s c" by simp
  from Cons.IH [OF this, of c1 "out @ diagnostic cmd"] c1 show ?case by simp
qed

lemma nk_foreach_filter:
  "nk_foreach e s cmds (cairo, out) = Inr (c', out') \<Longrightarrow>
   nk_foreach e s (filter (\<lambda>c. \<not> unsupported c) cmds) (cairo, out2) =
     Inr (c', out2 @ concat (map diagnostic (filter (\<lambda>c. \<not> unsupported c) cmds)))"
proof (induction cmds arbitrary: cairo out out2)
  case Nil
  then show ?case by simp
next
  case (Cons cmd cmds)
  from Cons.prems obtain c1 o1 where
    1: "render_command e s cmd (cairo, out) = Inr (c1, o1)"
    and 2: "nk_foreach e s cmds (c1, o1) = Inr (c', out')"
    by (cases "render_command e s cmd (cairo, out)") auto
  show ?case
  proof (cases "unsupported cmd")
    case True
    with render_command_unsupported [of cmd e s cairo out] 1 have "c1 = cairo" by simp
    with Cons.IH [OF 2, of out2] True show ?thesis by simp
  next
    case False
    from render_command_out(2) [OF 1, of out2] Cons.IH [OF 2, of "out2 @ diagnostic cmd"] False
    show ?thesis by simp
  qed
qed

text \<open>
  Claim C4, as stated, fails: an arc command is supported (it is drawn), and it writes a
  line to the diagnostic stream.
\<close>

theorem arc_writes_a_line_counterexample:
  "map_sum id rr_stderr
     (nk_cairo_render example_env example_state
        \<lparr>ctx_commands = [NK_COMMAND_ARC 50 50 10 1 0 1 example_color]\<rparr> 0 100 100 400) =
     Inr [''NK_COMMAND_ARC\<newline>''] \<and>
   \<not> unsupported (NK_COMMAND_ARC 50 50 10 1 0 1 example_color)"
  by (simp add: nk_cairo_render_def Let_def fprintf_stderr_def)

text \<open>
  Claim C4, amended. A render pass over well-formed commands returns; the diagnostic stream
  receives, in command order, exactly one line for each curve and each multi-colour
  rectangle (its name and "not implemented"), one line for each arc and each filled arc
  (its name), and nothing for any other command; and the context ends as it does when the
  curve and multi-colour rectangle commands are removed from the list: they make no call,
  and the commands after them are rendered.
\<close>

theorem unsupported_commands_are_skipped:
  assumes "\<forall>c\<in>set (ctx_commands ctx). cmd_ok s c"
  shows "\<exists>r r'. nk_cairo_render e s ctx fb w h pitch = Inr r \<and>
           rr_stderr r = concat (map diagnostic (ctx_commands ctx)) \<and>
           nk_cairo_render e s
             (ctx\<lparr>ctx_commands := filter (\<lambda>c. \<not> unsupported c) (ctx_commands ctx)\<rparr>)
             fb w h pitch = Inr r' \<and>
           rr_cairo r' = rr_cairo r"
proof -
  define start where "start = nk_cairo_scissor
    (cairo_create (cairo_image_surface_create_for_data fb w h pitch)) 0 0
    (real_of_int w) (real_of_int h)"
  from nk_foreach_ok [OF assms, of e start "[]"] obtain c' where
    1: "nk_foreach e s (ctx_commands ctx) (start, []) =
          Inr (c', concat (map diagnostic (ctx_commands ctx)))"
    by auto
  from nk_foreach_filter [OF 1, of "[]"] 1 show ?thesis
    by (simp add: nk_cairo_render_def Let_def start_def)
qed

theorem unsupported_commands_witness:
  "map_sum id rr_stderr
     (nk_cairo_render example_env example_state
        \<lparr>ctx_commands =
           [NK_COMMAND_RECT_FILLED 0 10 10 50 20 example_color,
            NK_COMMAND_CURVE 1 \<lparr>vec_x = 0, vec_y = 0\<rparr> \<lparr>vec_x = 9, vec_y = 9\<rparr>
              \<lparr>vec_x = 3, vec_y = 0\<rparr> \<lparr>vec_x = 6, vec_y = 9\<rparr> example_color,
            NK_COMMAND_TEXT 0 example_color example_color 5 5 90 30 24 2 ''hi'',
            NK_COMMAND_RECT_MULTI_COLOR 0 0 5 5 example_color example_color example_color
              example_color,
            NK_COMMAND_LINE 1 \<lparr>vec_x = 0, vec_y = 0\<rparr> \<lparr>vec_x = 9, vec_y = 9\<rparr> example_color]\<rparr>
        0 100 100 400) =
     Inr [''NK_COMMAND_CURVE not implemented\<newline>'',
          ''NK_COMMAND_RECT_MULTI_COLOR not implemented\<newline>''] \<and>
   map_sum id rr_cairo
     (nk_cairo_render example_env example_state
        \<lparr>ctx_commands =
           [NK_COMMAND_RECT_FILLED 0 10 10 50 20 example_color,
            NK_COMMAND_CURVE 1 \<lparr>vec_x = 0, vec_y = 0\<rparr> \<lparr>vec_x = 9, vec_y = 9\<rparr>
              \<lparr>vec_x = 3, vec_y = 0\<rparr> \<lparr>vec_x = 6, vec_y = 9\<rparr> example_color,
            NK_COMMAND_TEXT 0 example_color example_color 5 5 90 30 24 2 ''hi'',
            NK_COMMAND_RECT_MULTI_COLOR 0 0 5 5 example_color example_color example_color
              example_color,
            NK_COMMAND_LINE 1 \<lparr>vec_x = 0, vec_y = 0\<rparr> \<lparr>vec_x = 9, vec_y = 9\<rparr> example_color]\<rparr>
        0 100 100 400) =
   map_sum id rr_cairo
     (nk_cairo_render example_env example_state
        \<lparr>ctx_commands =
           [NK_COMMAND_RECT_FILLED 0 10 10 50 20 example_color,
            NK_COMMAND_TEXT 0 example_color example_color 5 5 90 30 24 2 ''hi'',
            NK_COMMAND_LINE 1 \<lparr>vec_x = 0, vec_y = 0\<rparr> \<lparr>vec_x = 9, vec_y = 9\<rparr> example_color]\<rparr>
        0 100 100 400)"
proof -
  let ?cmds = "[NK_COMMAND_RECT_FILLED 0 10 10 50 20 example_color,
            NK_COMMAND_CURVE 1 \<lparr>vec_x = 0, vec_y = 0\<rparr> \<lparr>vec_x = 9, vec_y = 9\<rparr>
              \<lparr>vec_x = 3, vec_y = 0\<rparr> \<lparr>vec_x = 6, vec_y = 9\<rparr> example_color,
            NK_COMMAND_TEXT 0 example_color example_color 5 5 90 30 24 2 ''hi'',
            NK_COMMAND_RECT_MULTI_COLOR 0 0 5 5 example_color example_color example_color
              example_color,
            NK_COMMAND_LINE 1 \<lparr>vec_x = 0, vec_y = 0\<rparr> \<lparr>vec_x = 9, vec_y = 9\<rparr> example_color]"
  have f: "font_ok example_state 0" by code_simp
  then have ok: "\<forall>c\<in>set (ctx_commands \<lparr>ctx_commands = ?cmds\<rparr>). cmd_ok example_state c"
    by simp
  from unsupported_commands_are_skipped [OF ok, of example_env 0 100 100 400]
  show ?thesis by auto
qed

text \<open>
  Claim C8. A render pass over well-formed commands returns; its last three calls, after
  those of the command loop, flush the surface, destroy the surface and destroy the
  context; the command list of the toolkit context is empty afterwards. Rendering that
  context again makes the clip-rectangle calls and the same three final calls only: no
  stroke, fill, paint or text call, so no pixel of the target changes, and no diagnostic
  line.
\<close>

theorem render_flushes_releases_and_clears:
  assumes "\<forall>c\<in>set (ctx_commands ctx). cmd_ok s c"
  shows "\<exists>r cairo r2.
           nk_cairo_render e s ctx fb w h pitch = Inr r \<and>
           nk_foreach e s (ctx_commands ctx)
             (nk_cairo_scissor (cairo_create (cairo_image_surface_create_for_data fb w h pitch))
                0 0 (real_of_int w) (real_of_int h), []) = Inr (cairo, rr_stderr r) \<and>
           cr_ops (rr_cairo r) =
             cr_ops cairo @
             [Surface_flush (cairo_image_surface_create_for_data fb w h pitch),
              Surface_destroy (cairo_image_surface_create_for_data fb w h pitch),
              Destroy] \<and>
           ctx_commands (rr_ctx r) = [] \<and>
           nk_cairo_render e s (rr_ctx r) fb w h pitch = Inr r2 \<and>
           cr_ops (rr_cairo r2) =
             [Reset_clip, New_path, Move_to 0 0, Line_to (real_of_int w) 0,
              Line_to (real_of_int w) (real_of_int h), Line_to 0 (real_of_int h), Line_to 0 0, Clip,
              Surface_flush (cairo_image_surface_create_for_data fb w h pitch),
              Surface_destroy (cairo_image_surface_create_for_data fb w h pitch),
              Destroy] \<and>
           filter paints (cr_ops (rr_cairo r2)) = [] \<and>
           rr_stderr r2 = [] \<and>
           ctx_commands (rr_ctx r2) = []"
proof -
  define start where "start = nk_cairo_scissor
    (cairo_create (cairo_image_surface_create_for_data fb w h pitch)) 0 0
    (real_of_int w) (real_of_int h)"
  from nk_foreach_ok [OF assms, of e start "[]"] obtain c' where
    1: "nk_foreach e s (ctx_commands ctx) (start, []) =
          Inr (c', concat (map diagnostic (ctx_commands ctx)))"
    by auto
  have ops: "cr_ops start =
      [Reset_clip, New_path, Move_to 0 0, Line_to (real_of_int w) 0,
       Line_to (real_of_int w) (real_of_int h), Line_to 0 (real_of_int h), Line_to 0 0, Clip]"
    by (simp add: start_def nk_cairo_scissor_def cairo_create_def cairo_call_defs Let_def)
  from 1 ops show ?thesis
    by (simp add: nk_cairo_render_def Let_def start_def [symmetric] nk_clear_def
        cairo_surface_flush_def cairo_surface_destroy_def cairo_destroy_def record_op_def)
qed

theorem render_flushes_witness:
  "map_sum id (cr_ops \<circ> rr_cairo)
     (nk_cairo_render example_env example_state
        \<lparr>ctx_commands =
           [NK_COMMAND_POLYGON_FILLED example_color 3
              [\<lparr>vec_x = 0, vec_y = 0\<rparr>, \<lparr>vec_x = 10, vec_y = 0\<rparr>, \<lparr>vec_x = 10, vec_y = 10\<rparr>],
            NK_COMMAND_TEXT 0 example_color example_color 5 5 90 30 24 2 ''hi'']\<rparr>
        7 100 50 400) =
     Inr [Reset_clip, New_path, Move_to 0 0, Line_to 100 0, Line_to 100 50, Line_to 0 50,
          Line_to 0 0, Clip,
          Set_source_rgba 0 0 0 1, New_sub_path, Move_to 0 0, Line_to 10 0, Line_to 10 10,
          Line_to 0 0, Close_path, Fill,
          Set_font_face (Some (Cairo_ft_font_face (FT_Face 5))), Set_font_size 24,
          Set_source_rgba 0 0 0 1, Move_to 5 23, Show_text [CHR ''h'', CHR ''i'', CHR 0x00],
          Surface_flush (cairo_image_surface_create_for_data 7 100 50 400),
          Surface_destroy (cairo_image_surface_create_for_data 7 100 50 400),
          Destroy] \<and>
   map_sum id (cr_ops \<circ> rr_cairo)
     (nk_cairo_render example_env example_state \<lparr>ctx_commands = []\<rparr> 7 100 50 400) =
     Inr [Reset_clip, New_path, Move_to 0 0, Line_to 100 0, Line_to 100 50, Line_to 0 50,
          Line_to 0 0, Clip,
          Surface_flush (cairo_image_surface_create_for_data 7 100 50 400),
          Surface_destroy (cairo_image_surface_create_for_data 7 100 50 400),
          Destroy]"
proof -
  let ?cmds = "[NK_COMMAND_POLYGON_FILLED example_color 3
              [\<lparr>vec_x = 0, vec_y = 0\<rparr>, \<lparr>vec_x = 10, vec_y = 0\<rparr>, \<lparr>vec_x = 10, vec_y = 10\<rparr>],
            NK_COMMAND_TEXT 0 example_color example_color 5 5 90 30 24 2 ''hi'']"
  have f: "font_ok example_state 0" by code_simp
  then have ok: "\<forall>c\<in>set (ctx_commands \<lparr>ctx_commands = ?cmds\<rparr>). cmd_ok example_state c"
    by simp
  have ev: "map_sum id (cr_ops \<circ> rr_cairo)
     (nk_cairo_render example_env example_state \<lparr>ctx_commands = ?cmds\<rparr> 7 100 50 400) =
     Inr [Reset_clip, New_path, Move_to 0 0, Line_to 100 0, Line_to 100 50, Line_to 0 50,
          Line_to 0 0, Clip,
          Set_source_rgba 0 0 0 1, New_sub_path, Move_to 0 0, Line_to 10 0, Line_to 10 10,
          Line_to 0 0, Close_path, Fill,
          Set_font_face (Some (Cairo_ft_font_face (FT_Face 5))), Set_font_size 24,
          Set_source_rgba 0 0 0 1, Move_to 5 23, Show_text [CHR ''h'', CHR ''i'', CHR 0x00],
          Surface_flush (cairo_image_surface_create_for_data 7 100 50 400),
          Surface_destroy (cairo_image_surface_create_for_data 7 100 50 400),
          Destroy]"
    by code_simp
  from render_flushes_releases_and_clears [OF ok, of example_env 7 100 50 400]
  obtain r r2 where
    "nk_cairo_render example_env example_state \<lparr>ctx_commands = ?cmds\<rparr> 7 100 50 400 = Inr r"
    "ctx_commands (rr_ctx r) = []"
    "nk_cairo_render example_env example_state (rr_ctx r) 7 100 50 400 = Inr r2"
    "cr_ops (rr_cairo r2) =
       [Reset_clip, New_path, Move_to 0 0, Line_to 100 0, Line_to 100 50, Line_to 0 50,
        Line_to 0 0, Clip,
        Surface_flush (cairo_image_surface_create_for_data 7 100 50 400),
        Surface_destroy (cairo_image_surface_create_for_data 7 100 50 400),
        Destroy]"
    by auto
  moreover from this(2) have "rr_ctx r = \<lparr>ctx_commands = []\<rparr>" by (cases "rr_ctx r") simp
  ultimately show ?thesis using ev by simp
qed

text \<open>
  No command changes the transformation of the frame's context for the commands after it,
  so every image command of a render pass meets the identity (see Claim C9).
\<close>

lemma line_to_pnts_matrix:
  "line_to_pnts cairo pnts count i = Inr c \<Longrightarrow> cr_matrix c = cr_matrix cairo"
proof (induction cairo pnts count i rule: line_to_pnts.induct)
  case (1 cairo pnts count i)
  show ?case
  proof (cases "i < count")
    case False
    with "1.prems" show ?thesis by (subst (asm) line_to_pnts.simps) simp
  next
    case True
    from "1.prems" True obtain p where rd: "array_read pnts i = Inr p"
      by (subst (asm) line_to_pnts.simps) (cases "array_read pnts i"; simp)
    from "1.prems" True rd have
      "line_to_pnts (cairo_line_to cairo (real_of_int (vec_x p)) (real_of_int (vec_y p)))
         pnts count (i + 1) = Inr c"
      by (subst (asm) line_to_pnts.simps) simp
    from "1.IH" [OF True rd this] show ?thesis by (simp add: cairo_call_defs)
  qed
qed

lemma polygon_matrix:
  "nk_cairo_stroke_polygon cairo pnts count line_thickness col = Inr c \<Longrightarrow>
     cr_matrix c = cr_matrix cairo"
  "nk_cairo_fill_polygon cairo pnts count col = Inr c \<Longrightarrow> cr_matrix c = cr_matrix cairo"
  "nk_cairo_stroke_polyline cairo pnts count line_thickness col = Inr c \<Longrightarrow>
     cr_matrix c = cr_matrix cairo"
  by (auto simp add: nk_cairo_stroke_polygon_def nk_cairo_fill_polygon_def
      nk_cairo_stroke_polyline_def nk_cairo_set_color_def Let_def cairo_call_defs
      split: sum.splits dest!: line_to_pnts_matrix)

lemma draw_text_matrix:
  "nk_cairo_draw_text e s cairo font rect text len font_height fg = Inr c \<Longrightarrow>
   cr_matrix c = cr_matrix cairo"
  by (auto simp add: nk_cairo_draw_text_def nk_cairo_set_color_def Let_def cairo_call_defs
      split: sum.splits option.splits)

lemma render_command_matrix:
  assumes "render_command e s cmd (cairo, out) = Inr (c, out')"
  shows "cr_matrix c = cr_matrix cairo"
  using assms
  by (cases cmd)
    (auto simp add: nk_cairo_scissor_def nk_cairo_stroke_line_def nk_cairo_stroke_rect_def
      nk_cairo_fill_rect_def nk_cairo_stroke_circle_def nk_cairo_fill_circle_def
      nk_cairo_stroke_triangle_def nk_cairo_fill_triangle_def nk_cairo_stroke_arc_def
      nk_cairo_fill_arc_def nk_cairo_drawimage_def nk_cairo_set_color_def
      Let_def cairo_call_defs split: sum.splits
      dest: polygon_matrix draw_text_matrix)

lemma nk_foreach_matrix:
  "nk_foreach e s cmds (cairo, out) = Inr (c, out') \<Longrightarrow> cr_matrix c = cr_matrix cairo"
proof (induction cmds arbitrary: cairo out)
  case Nil
  then show ?case by simp
next
  case (Cons cmd cmds)
  from Cons.prems obtain c1 o1 where
    1: "render_command e s cmd (cairo, out) = Inr (c1, o1)"
    and 2: "nk_foreach e s cmds (c1, o1) = Inr (c, out')"
    by (cases "render_command e s cmd (cairo, out)") auto
  from Cons.IH [OF 2] render_command_matrix [OF 1] show ?case by simp
qed

lemma render_pass_matrix_is_identity:
  "nk_foreach e s cmds
     (nk_cairo_scissor (cairo_create surface) 0 0 (real_of_int w) (real_of_int h), []) =
     Inr (c, out') \<Longrightarrow>
   cr_matrix c = identity_matrix"
  by (drule nk_foreach_matrix)
    (simp add: nk_cairo_scissor_def cairo_create_def Let_def cairo_call_defs)

end
